theory Spec2Isabelle
  imports Main "HOL-Library.Sublist" "HOL-Library.AList"
begin

section \<open>Data model\<close>

text \<open>
  The two recipes (\<^verbatim>\<open>recipes/gdk-pixbuf/all/conanfile.py\<close> and
  \<^verbatim>\<open>recipes/libiconv/all/conanfile.py\<close>) are Python classes whose methods mutate the
  recipe object and the file system and may raise. A method is modelled as a function from
  the state to an optional exception and the state reached; a raise keeps the mutations
  made before it, as in Python.

  A directory tree lists the files with their path (its components) and content, as a
  dictionary; the first entry of a path counts. Directories are not stored: a directory
  exists when a file lies below it.
\<close>

type_synonym path = "string list"
type_synonym tree = "(path \<times> string) list"

datatype error =
    ConanInvalidConfiguration string
  | ConanException string
  | KeyError string
  | OSError string
  | ToolError string

text \<open>
  \<^verbatim>\<open>tools.Version\<close> compares semantic versions. The recipes only compare plain numeric
  versions, which are kept parsed as major, minor and patch number (\<^verbatim>\<open>"12"\<close> is
  \<open>Version 12 0 0\<close>).
\<close>

datatype version = Version nat nat nat

fun Version_ge :: "version \<Rightarrow> version \<Rightarrow> bool" where
  "Version_ge (Version a b c) (Version x y z) =
     (a > x \<or> (a = x \<and> (b > y \<or> (b = y \<and> c \<ge> z))))"

definition Version_lt :: "version \<Rightarrow> version \<Rightarrow> bool" where
  "Version_lt v w = (\<not> Version_ge v w)"

record settings =
  os :: string
  arch :: string
  compiler :: string
  compiler_version :: version
  compiler_libcxx :: "string option"
  compiler_cppstd :: "string option"
  build_type :: string

text \<open>
  An option value is a boolean or one of the enumerated strings of the option's declared
  domain. The live option set is a dictionary: a deleted option is an absent key.
\<close>

datatype opt_value = OBool bool | OStr string

text \<open>The calls to the build tools and file tools that completed, in order.\<close>

datatype call =
    Get version
  | Patch string
  | Replace_in_file path string string
  | Move path path
  | Copy path path
  | Rename path path
  | Rmdir path
  | Remove_files_by_mask path string
  | Meson_configure "(string \<times> string) list" "string list"
  | Meson_build
  | Meson_install
  | Autotools_configure "string list" "string option" "bool option"
  | Autotools_make
  | Autotools_install

record autotools =
  win_bash :: bool
  flags :: "string list"

record cpp_info =
  libs :: "string list"
  includedirs :: "string list"
  names :: "string \<rightharpoonup> string"
  cpp_defines :: "string list"
  system_libs :: "string list"
  properties :: "string \<rightharpoonup> string"

record conanfile =
  version :: version
  settings :: settings
  settings_build :: "settings option"
  options :: "string \<rightharpoonup> opt_value"
  requires :: "string \<rightharpoonup> string"
  build_requires :: "string \<rightharpoonup> string"
  autotools_cache :: "autotools option"
  build_folder :: tree
  package_folder :: tree
  cpp_info :: cpp_info
  env_info :: "string \<rightharpoonup> path list"
  calls :: "call list"

text \<open>
  What the recipes take from outside: the \<^verbatim>\<open>conandata.yml\<close> tables, the build
  machine, the process environment and the external tools (download, patch, Meson,
  Autotools, library collection). They are parameters of the model.
\<close>

record ext =
  conan_data_sources :: "version \<rightharpoonup> string"
  conan_data_patches :: "version \<Rightarrow> string list"
  download :: "string \<Rightarrow> error + tree"
  tools_patch :: "string \<Rightarrow> tree \<Rightarrow> error + tree"
  os_info_is_windows :: bool
  cross_building :: "settings \<Rightarrow> bool"
  environ :: "string \<rightharpoonup> string"
  unix_path :: "string \<Rightarrow> string"
  os_path_join :: "string list \<Rightarrow> string"
  build_folder_name :: string
  autotools_build_environment :: "settings \<Rightarrow> bool \<Rightarrow> autotools"
  meson_configure :: "(string \<times> string) list \<Rightarrow> string list \<Rightarrow> tree \<Rightarrow> error + tree"
  meson_build :: "tree \<Rightarrow> error + tree"
  meson_install :: "tree \<Rightarrow> tree \<Rightarrow> error + tree"
  autotools_configure ::
    "(string \<times> string) list \<Rightarrow> autotools \<Rightarrow> string list \<Rightarrow> string option \<Rightarrow> bool option
       \<Rightarrow> tree \<Rightarrow> error + tree"
  autotools_make :: "(string \<times> string) list \<Rightarrow> autotools \<Rightarrow> tree \<Rightarrow> error + tree"
  autotools_install :: "(string \<times> string) list \<Rightarrow> autotools \<Rightarrow> tree \<Rightarrow> tree \<Rightarrow> error + tree"
  collect_libs :: "tree \<Rightarrow> string list"

section \<open>Statements\<close>

type_synonym stmt = "conanfile \<Rightarrow> error option \<times> conanfile"

definition skip :: stmt where
  "skip s = (None, s)"

definition raise :: "error \<Rightarrow> stmt" where
  "raise e s = (Some e, s)"

definition seq :: "stmt \<Rightarrow> stmt \<Rightarrow> stmt" where
  "seq m n s = (case m s of (None, s') \<Rightarrow> n s' | (Some e, s') \<Rightarrow> (Some e, s'))"

fun block :: "stmt list \<Rightarrow> stmt" where
  "block [] = skip"
| "block (m # ms) = seq m (block ms)"

text \<open>\<^verbatim>\<open>if b: m else: n\<close>, where evaluating the condition may raise.\<close>

definition cond :: "(conanfile \<Rightarrow> error + bool) \<Rightarrow> stmt \<Rightarrow> stmt \<Rightarrow> stmt" where
  "cond b m n s = (case b s of Inl e \<Rightarrow> (Some e, s) | Inr t \<Rightarrow> (if t then m s else n s))"

definition pure :: "(conanfile \<Rightarrow> bool) \<Rightarrow> conanfile \<Rightarrow> error + bool" where
  "pure b s = Inr (b s)"

definition bind :: "error + 'a \<Rightarrow> ('a \<Rightarrow> error + 'b) \<Rightarrow> error + 'b" where
  "bind r f = (case r of Inl e \<Rightarrow> Inl e | Inr a \<Rightarrow> f a)"

section \<open>Options, settings and requirements of the recipe object\<close>

text \<open>
  Conan's option object: reading an attribute of a deleted option raises, \<^verbatim>\<open>get_safe\<close>
  returns \<^verbatim>\<open>None\<close> instead, \<^verbatim>\<open>del\<close> of an option removes it and is silent when it is
  already gone (the double deletion of \<^verbatim>\<open>fPIC\<close> on Windows with \<^verbatim>\<open>shared=True\<close>).
\<close>

definition option_attr :: "string \<Rightarrow> conanfile \<Rightarrow> error + opt_value" where
  "option_attr n s =
     (case options s n of None \<Rightarrow> Inl (ConanException (''option '' @ n @ '' doesn't exist''))
      | Some v \<Rightarrow> Inr v)"

fun truthy :: "opt_value \<Rightarrow> bool" where
  "truthy (OBool b) = b"
| "truthy (OStr v) = (v \<notin> set [''false'', ''none'', ''0'', ''off'', ''''])"

fun opt_str :: "opt_value \<Rightarrow> string" where
  "opt_str (OBool b) = (if b then ''True'' else ''False'')"
| "opt_str (OStr v) = v"

definition option_true :: "string \<Rightarrow> conanfile \<Rightarrow> error + bool" where
  "option_true n s = bind (option_attr n s) (\<lambda>v. Inr (truthy v))"

definition option_eq :: "string \<Rightarrow> string \<Rightarrow> conanfile \<Rightarrow> error + bool" where
  "option_eq n w s = bind (option_attr n s) (\<lambda>v. Inr (opt_str v = w))"

definition get_safe :: "string \<Rightarrow> conanfile \<Rightarrow> error + bool" where
  "get_safe n s = Inr (case options s n of None \<Rightarrow> False | Some v \<Rightarrow> truthy v)"

definition del_option :: "string \<Rightarrow> stmt" where
  "del_option n s = (None, s\<lparr>options := (options s)(n := None)\<rparr>)"

definition del_compiler_libcxx :: stmt where
  "del_compiler_libcxx s = (None, s\<lparr>settings := (settings s)\<lparr>compiler_libcxx := None\<rparr>\<rparr>)"

definition del_compiler_cppstd :: stmt where
  "del_compiler_cppstd s = (None, s\<lparr>settings := (settings s)\<lparr>compiler_cppstd := None\<rparr>\<rparr>)"

text \<open>
  \<^verbatim>\<open>self.requires("name/version")\<close>: the requirements are keyed by package name; the
  same reference may be added again, another version of a name already required is
  rejected. \<^verbatim>\<open>self.build_requires("name/version")\<close> stores the reference under its name.
\<close>

definition self_requires :: "string \<Rightarrow> string \<Rightarrow> stmt" where
  "self_requires n v s =
     (case requires s n of
        None \<Rightarrow> (None, s\<lparr>requires := (requires s)(n \<mapsto> v)\<rparr>)
      | Some w \<Rightarrow> if w = v then (None, s\<lparr>requires := (requires s)(n \<mapsto> v)\<rparr>)
                  else (Some (ConanException (''Duplicated requirement '' @ n)), s))"

definition self_build_requires :: "string \<Rightarrow> string \<Rightarrow> stmt" where
  "self_build_requires n v s = (None, s\<lparr>build_requires := (build_requires s)(n \<mapsto> v)\<rparr>)"

section \<open>File tools\<close>

text \<open>Python's \<^verbatim>\<open>search in content\<close> and \<^verbatim>\<open>content.replace(search, replace)\<close>.\<close>

fun str_contains :: "string \<Rightarrow> string \<Rightarrow> bool" where
  "str_contains w [] = (w = [])"
| "str_contains w (c # cs) = (prefix w (c # cs) \<or> str_contains w cs)"

fun str_replace :: "string \<Rightarrow> string \<Rightarrow> string \<Rightarrow> string" where
  "str_replace [] r t = r @ concat (map (\<lambda>c. c # r) t)"
| "str_replace (x # xs) r [] = []"
| "str_replace (x # xs) r (c # cs) =
     (if prefix (x # xs) (c # cs) then r @ str_replace (x # xs) r (drop (length xs) cs)
      else c # str_replace (x # xs) r cs)"

definition in_build_folder :: "call \<Rightarrow> (tree \<Rightarrow> error + tree) \<Rightarrow> stmt" where
  "in_build_folder c f s =
     (case f (build_folder s) of Inl e \<Rightarrow> (Some e, s)
      | Inr t \<Rightarrow> (None, s\<lparr>build_folder := t, calls := calls s @ [c]\<rparr>))"

definition in_package_folder :: "call \<Rightarrow> (tree \<Rightarrow> error + tree) \<Rightarrow> stmt" where
  "in_package_folder c f s =
     (case f (package_folder s) of Inl e \<Rightarrow> (Some e, s)
      | Inr t \<Rightarrow> (None, s\<lparr>package_folder := t, calls := calls s @ [c]\<rparr>))"

text \<open>\<^verbatim>\<open>os.path.exists\<close>: a file at the path, or a directory (a file below the path).\<close>

definition path_exists :: "tree \<Rightarrow> path \<Rightarrow> bool" where
  "path_exists t p = list_ex (\<lambda>(q, c). prefix p q) t"

text \<open>
  \<^verbatim>\<open>tools.replace_in_file(file_path, search, replace)\<close> with its default \<^verbatim>\<open>strict=True\<close>:
  the file is loaded, an absent search text raises, otherwise every occurrence is
  replaced and the file saved.
\<close>

definition replace_in_file_tree :: "path \<Rightarrow> string \<Rightarrow> string \<Rightarrow> tree \<Rightarrow> error + tree" where
  "replace_in_file_tree p w r t =
     (case map_of t p of
        None \<Rightarrow> Inl (OSError ''No such file or directory'')
      | Some content \<Rightarrow>
          if \<not> str_contains w content
          then Inl (ConanException (''replace_in_file didn't find pattern '' @ w))
          else Inr (AList.update p (str_replace w r content) t))"

definition replace_in_file :: "path \<Rightarrow> string \<Rightarrow> string \<Rightarrow> stmt" where
  "replace_in_file p w r = in_build_folder (Replace_in_file p w r) (replace_in_file_tree p w r)"

text \<open>\<^verbatim>\<open>os.rename\<close> and \<^verbatim>\<open>shutil.move\<close> of a file: a missing source raises.\<close>

definition os_rename :: "path \<Rightarrow> path \<Rightarrow> tree \<Rightarrow> error + tree" where
  "os_rename src dst t =
     (case map_of t src of
        None \<Rightarrow> Inl (OSError ''No such file or directory'')
      | Some content \<Rightarrow> Inr (AList.update dst content (AList.delete src t)))"

text \<open>
  \<^verbatim>\<open>rename\<close> of \<^verbatim>\<open>conan.tools.files\<close>: an existing destination raises, then
  \<^verbatim>\<open>os.rename\<close>, whose failure is raised as a Conan exception.
\<close>

definition rename :: "path \<Rightarrow> path \<Rightarrow> tree \<Rightarrow> error + tree" where
  "rename src dst t =
     (if path_exists t dst then Inl (ConanException ''rename failed, dst exists.'')
      else case os_rename src dst t of
             Inl e \<Rightarrow> Inl (ConanException ''rename failed'')
           | Inr t' \<Rightarrow> Inr t')"

text \<open>\<^verbatim>\<open>tools.rmdir(path)\<close> removes the directory and all below it; a missing one is fine.\<close>

definition rmdir :: "path \<Rightarrow> tree \<Rightarrow> error + tree" where
  "rmdir d t = Inr (filter (\<lambda>(p, c). \<not> prefix d p) t)"

text \<open>
  \<^verbatim>\<open>tools.remove_files_by_mask(directory, pattern)\<close> removes every file below the
  directory whose name matches the pattern. The recipes' patterns are a star and an
  extension: the name ends with the extension.
\<close>

fun fnmatch :: "string \<Rightarrow> string \<Rightarrow> bool" where
  "fnmatch n (c # ext) = (if c = CHR ''*'' then suffix ext n else n = c # ext)"
| "fnmatch n [] = (n = [])"

definition matches_mask :: "string \<Rightarrow> path \<Rightarrow> bool" where
  "matches_mask pat p = (p \<noteq> [] \<and> fnmatch (last p) pat)"

definition remove_files_by_mask :: "path \<Rightarrow> string \<Rightarrow> tree \<Rightarrow> error + tree" where
  "remove_files_by_mask d pat t =
     Inr (filter (\<lambda>(p, c). \<not> (prefix d p \<and> p \<noteq> d \<and> matches_mask pat p)) t)"

text \<open>
  \<^verbatim>\<open>self.copy(name, src=..., dst=...)\<close> in \<^verbatim>\<open>package()\<close>: the file of that name in the
  source subfolder of the build folder, when there is one, is copied below the package
  folder.
\<close>

definition self_copy :: "string \<Rightarrow> path \<Rightarrow> path \<Rightarrow> stmt" where
  "self_copy n src dst s =
     (case map_of (build_folder s) (src @ [n]) of
        None \<Rightarrow> (None, s)
      | Some content \<Rightarrow>
          (None, s\<lparr>package_folder := AList.update (dst @ [n]) content (package_folder s),
                   calls := calls s @ [Copy (src @ [n]) (dst @ [n])]\<rparr>))"

text \<open>
  \<^verbatim>\<open>tools.get(**self.conan_data["sources"][self.version], strip_root=True,
  destination=...)\<close>: the version is looked up, the archive downloaded and its files
  written below the destination.
\<close>

definition unpack :: "string \<Rightarrow> tree \<Rightarrow> tree \<Rightarrow> tree" where
  "unpack d archive t = foldl (\<lambda>t' (q, c). AList.update (d # q) c t') t archive"

definition tools_get :: "ext \<Rightarrow> string \<Rightarrow> stmt" where
  "tools_get X d s =
     (case conan_data_sources X (version s) of
        None \<Rightarrow> (Some (KeyError ''version''), s)
      | Some url \<Rightarrow>
          (case download X url of
             Inl e \<Rightarrow> (Some e, s)
           | Inr archive \<Rightarrow>
               (None, s\<lparr>build_folder := unpack d archive (build_folder s),
                        calls := calls s @ [Get (version s)]\<rparr>)))"

definition upd_cpp_info :: "(cpp_info \<Rightarrow> cpp_info) \<Rightarrow> stmt" where
  "upd_cpp_info f s = (None, s\<lparr>cpp_info := f (cpp_info s)\<rparr>)"

text \<open>The single quote and the backslash, for the search texts that hold them.\<close>

definition sq :: string where
  "sq = [CHR 0x27]"

definition backslash :: string where
  "backslash = [CHR 0x5C]"

section \<open>The gdk-pixbuf recipe\<close>

definition source_subfolder :: string where
  "source_subfolder = ''source_subfolder''"

definition build_subfolder :: string where
  "build_subfolder = ''build_subfolder''"

definition gdk_pixbuf_config_options :: stmt where
  "gdk_pixbuf_config_options = block
     [cond (pure (\<lambda>s. os (settings s) = ''Windows'')) (del_option ''fPIC'') skip,
      cond (pure (\<lambda>s. Version_ge (version s) (Version 2 42 0))) (del_option ''with_jasper'') skip]"

definition gdk_pixbuf_configure :: stmt where
  "gdk_pixbuf_configure = block
     [cond (option_true ''shared'') (del_option ''fPIC'') skip,
      del_compiler_libcxx,
      del_compiler_cppstd,
      cond (pure (\<lambda>s. os (settings s) = ''Macos''))
        (raise (ConanInvalidConfiguration ''This package does not support Macos currently''))
        skip]"

definition gdk_pixbuf_build_requirements :: stmt where
  "gdk_pixbuf_build_requirements = block
     [self_build_requires ''meson'' ''0.61.2'',
      self_build_requires ''pkgconf'' ''1.7.4'',
      cond (option_true ''with_introspection'')
        (self_build_requires ''gobject-introspection'' ''1.70.0'') skip]"

definition gdk_pixbuf_requirements :: stmt where
  "gdk_pixbuf_requirements = block
     [self_requires ''glib'' ''2.70.4'',
      cond (option_true ''with_libpng'') (self_requires ''libpng'' ''1.6.37'') skip,
      cond (option_true ''with_libtiff'') (self_requires ''libtiff'' ''4.3.0'') skip,
      cond (option_eq ''with_libjpeg'' ''libjpeg-turbo'')
        (self_requires ''libjpeg-turbo'' ''2.1.2'')
        (cond (option_eq ''with_libjpeg'' ''libjpeg'') (self_requires ''libjpeg'' ''9d'') skip),
      cond (get_safe ''with_jasper'') (self_requires ''jasper'' ''2.0.33'') skip]"

definition meson_build_file :: path where
  "meson_build_file = [source_subfolder, ''meson.build'']"

definition post_install_file :: path where
  "post_install_file = [source_subfolder, ''build-aux'', ''post-install.py'']"

definition gmodule_search :: "version \<Rightarrow> string" where
  "gmodule_search v =
     (if Version_ge v (Version 2 42 6)
      then ''gmodule_dep.get_variable(pkgconfig: '' @ sq @ ''gmodule_supported'' @ sq @ '')''
      else ''gmodule_dep.get_pkgconfig_variable('' @ sq @ ''gmodule_supported'' @ sq @ '')'')"

definition gdk_pixbuf_source :: "ext \<Rightarrow> stmt" where
  "gdk_pixbuf_source X = block
     [tools_get X source_subfolder,
      replace_in_file meson_build_file
        (''subdir('' @ sq @ ''tests'' @ sq @ '')'') (''#subdir('' @ sq @ ''tests'' @ sq @ '')''),
      replace_in_file meson_build_file
        (''subdir('' @ sq @ ''thumbnailer'' @ sq @ '')'')
        (''#subdir('' @ sq @ ''thumbnailer'' @ sq @ '')''),
      (\<lambda>s. replace_in_file meson_build_file (gmodule_search (version s))
              (sq @ ''true'' @ sq) s),
      cond (pure (\<lambda>s. Version_ge (version s) (Version 2 42 6)))
        (replace_in_file post_install_file
           ''close_fds=True'' (''close_fds=(sys.platform != '' @ sq @ ''win32'' @ sq @ '')''))
        skip]"

text \<open>
  \<^verbatim>\<open>_configure_meson\<close>: the dictionary \<^verbatim>\<open>defs\<close> is filled in the source's order (a key
  assigned again keeps its place and takes the new value), then Meson is configured.
\<close>

definition tf :: "bool \<Rightarrow> string" where
  "tf b = (if b then ''true'' else ''false'')"

definition gdk_pixbuf_meson_defs :: "conanfile \<Rightarrow> error + (string \<times> string) list" where
  "gdk_pixbuf_meson_defs s =
     bind (option_true ''with_libpng'' s) (\<lambda>png.
     bind (option_true ''with_libtiff'' s) (\<lambda>tiff.
     bind (option_true ''with_libjpeg'' s) (\<lambda>jpeg.
     bind (if ''with_jasper'' \<in> dom (options s)
           then bind (option_true ''with_jasper'' s) (\<lambda>j. Inr (Some j)) else Inr None) (\<lambda>jasper.
     bind (option_true ''with_introspection'' s) (\<lambda>intro.
       Inr (foldl (\<lambda>d (k, v). AList.update k v d) []
         ([if Version_ge (version s) (Version 2 42 0)
           then (''introspection'', ''false'') else (''gir'', ''false''),
           (''docs'', ''false''), (''man'', ''false''), (''installed_tests'', ''false''),
           (''png'', tf png), (''tiff'', tf tiff), (''jpeg'', tf jpeg)]
          @ (case jasper of None \<Rightarrow> [] | Some j \<Rightarrow> [(''jasper'', tf j)])
          @ (if Version_lt (version s) (Version 2 42 0) then [(''x11'', ''false'')] else [])
          @ [(''builtin_loaders'', ''all''), (''gio_sniffing'', ''false''),
             (''introspection'', if intro then ''enabled'' else ''disabled'')])))))))"

definition gdk_pixbuf_configure_meson :: "ext \<Rightarrow> stmt" where
  "gdk_pixbuf_configure_meson X s =
     (case gdk_pixbuf_meson_defs s of
        Inl e \<Rightarrow> (Some e, s)
      | Inr defs \<Rightarrow>
          in_build_folder (Meson_configure defs [''--wrap-mode=nofallback''])
            (meson_configure X defs [''--wrap-mode=nofallback'']) s)"

definition gdk_pixbuf_build :: "ext \<Rightarrow> stmt" where
  "gdk_pixbuf_build X = block
     [cond (option_true ''with_libpng'')
        (in_build_folder (Move [''libpng.pc''] [''libpng16.pc''])
           (os_rename [''libpng.pc''] [''libpng16.pc'']))
        skip,
      gdk_pixbuf_configure_meson X,
      in_build_folder Meson_build (meson_build X)]"

definition is_msvc_static :: "conanfile \<Rightarrow> error + bool" where
  "is_msvc_static s =
     (if compiler (settings s) \<in> set [''Visual Studio'', ''msvc'']
      then bind (option_true ''shared'' s) (\<lambda>b. Inr (\<not> b)) else Inr False)"

definition gdk_pixbuf_package :: "ext \<Rightarrow> stmt" where
  "gdk_pixbuf_package X = block
     [self_copy ''COPYING'' [source_subfolder] [''licenses''],
      gdk_pixbuf_configure_meson X,
      (\<lambda>s. in_package_folder Meson_install (meson_install X (build_folder s)) s),
      cond is_msvc_static
        (in_package_folder
           (Rename [''lib'', ''libgdk_pixbuf-2.0.a''] [''lib'', ''gdk_pixbuf-2.0.lib''])
           (os_rename [''lib'', ''libgdk_pixbuf-2.0.a''] [''lib'', ''gdk_pixbuf-2.0.lib'']))
        skip,
      in_package_folder (Rmdir [''lib'', ''pkgconfig'']) (rmdir [''lib'', ''pkgconfig'']),
      in_package_folder (Rmdir [''share'']) (rmdir [''share'']),
      in_package_folder (Remove_files_by_mask [] ''*.pdb'') (remove_files_by_mask [] ''*.pdb'')]"

definition gdk_pixbuf_package_info :: "ext \<Rightarrow> stmt" where
  "gdk_pixbuf_package_info X = block
     [(\<lambda>s. upd_cpp_info (\<lambda>c. c\<lparr>libs := collect_libs X (package_folder s)\<rparr>) s),
      upd_cpp_info (\<lambda>c. c\<lparr>includedirs := [''include/gdk-pixbuf-2.0'']\<rparr>),
      upd_cpp_info (\<lambda>c. c\<lparr>names := (names c)(''pkg_config'' \<mapsto> ''gdk-pixbuf-2.0'')\<rparr>),
      cond (option_true ''shared'') skip
        (upd_cpp_info (\<lambda>c. c\<lparr>cpp_defines := cpp_defines c @ [''GDK_PIXBUF_STATIC_COMPILATION'']\<rparr>)),
      cond (pure (\<lambda>s. os (settings s) \<in> set [''Linux'', ''FreeBSD'']))
        (upd_cpp_info (\<lambda>c. c\<lparr>system_libs := [''m'']\<rparr>)) skip,
      (\<lambda>s. (None, s\<lparr>env_info :=
                (env_info s)(''GDK_PIXBUF_PIXDATA'' \<mapsto> [[''bin'', ''gdk-pixbuf-pixdata'']])\<rparr>))]"

section \<open>The libiconv recipe\<close>

definition use_winbash :: "ext \<Rightarrow> conanfile \<Rightarrow> bool" where
  "use_winbash X s =
     (os_info_is_windows X \<and> (compiler (settings s) = ''gcc'' \<or> cross_building X (settings s)))"

definition is_msvc :: "conanfile \<Rightarrow> bool" where
  "is_msvc s = (compiler (settings s) \<in> set [''Visual Studio'', ''msvc''])"

definition is_clang_cl :: "conanfile \<Rightarrow> bool" where
  "is_clang_cl s = (compiler (settings s) = ''clang'' \<and> os (settings s) = ''Windows'')"

definition libiconv_config_options :: stmt where
  "libiconv_config_options = block
     [cond (pure (\<lambda>s. os (settings s) = ''Windows'')) (del_option ''fPIC'') skip]"

definition libiconv_configure :: stmt where
  "libiconv_configure = block
     [cond (option_true ''shared'') (del_option ''fPIC'') skip,
      del_compiler_libcxx,
      del_compiler_cppstd]"

text \<open>\<^verbatim>\<open>getattr(self, "settings_build", self.settings)\<close>\<close>

definition the_settings_build :: "conanfile \<Rightarrow> settings" where
  "the_settings_build s = (case settings_build s of None \<Rightarrow> settings s | Some b \<Rightarrow> b)"

text \<open>\<^verbatim>\<open>tools.get_env(name)\<close> is the variable's value or \<^verbatim>\<open>None\<close>; both \<^verbatim>\<open>None\<close> and the
  empty string are false.\<close>

definition get_env_set :: "ext \<Rightarrow> string \<Rightarrow> bool" where
  "get_env_set X n = (case environ X n of None \<Rightarrow> False | Some v \<Rightarrow> v \<noteq> [])"

definition libiconv_build_requirements :: "ext \<Rightarrow> stmt" where
  "libiconv_build_requirements X = block
     [cond (pure (\<lambda>s. os (the_settings_build s) = ''Windows'' \<and> \<not> get_env_set X ''CONAN_BASH_PATH''))
        (self_build_requires ''msys2'' ''cci.latest'') skip]"

definition libiconv_source :: "ext \<Rightarrow> stmt" where
  "libiconv_source X = tools_get X source_subfolder"

text \<open>
  \<^verbatim>\<open>_build_context\<close> computes the environment overrides \<^verbatim>\<open>env_vars\<close> and runs its body
  under them (in the source subfolder, and under \<^verbatim>\<open>vcvars\<close> for the MSVC-like
  compilers). The body receives the overrides; they end with the body.
\<close>

definition environ_get :: "ext \<Rightarrow> string \<Rightarrow> string \<Rightarrow> string" where
  "environ_get X n d = (case environ X n of None \<Rightarrow> d | Some v \<Rightarrow> v)"

definition env_vars :: "ext \<Rightarrow> conanfile \<Rightarrow> (string \<times> string) list" where
  "env_vars X s =
     (let
        cc = (if is_msvc s then ''cl'' else environ_get X ''CC'' ''clang-cl'');
        cxx = (if is_msvc s then ''cl'' else environ_get X ''CXX'' ''clang-cl'');
        lib = (if is_msvc s then ''lib'' else environ_get X ''AR'' ''llvm-lib'');
        build_aux_path = os_path_join X [build_folder_name X, source_subfolder, ''build-aux''];
        lt_compile = unix_path X (os_path_join X [build_aux_path, ''compile'']);
        lt_ar = unix_path X (os_path_join X [build_aux_path, ''ar-lib'']);
        rc = (if arch (settings s) = ''x86'' then Some ''windres --target=pe-i386''
              else if arch (settings s) = ''x86_64'' then Some ''windres --target=pe-x86-64''
              else None)
      in foldl (\<lambda>d (k, v). AList.update k v d) []
           ((if is_msvc s \<or> is_clang_cl s
             then [(''CC'', lt_compile @ '' '' @ cc @ '' -nologo''),
                   (''CXX'', lt_compile @ '' '' @ cxx @ '' -nologo''),
                   (''LD'', ''link''),
                   (''STRIP'', '':''),
                   (''AR'', lt_ar @ '' '' @ lib),
                   (''RANLIB'', '':''),
                   (''NM'', ''dumpbin -symbols''),
                   (''win32_target'', ''_WIN32_WINNT_VISTA'')]
             else [])
            @ (if \<not> cross_building X (settings s) \<or> is_msvc s \<or> is_clang_cl s
               then (case rc of None \<Rightarrow> [] | Some r \<Rightarrow> [(''RC'', r), (''WINDRES'', r)])
               else [])
            @ (if use_winbash X s then [(''RANLIB'', '':'')] else [])))"

definition build_context :: "ext \<Rightarrow> ((string \<times> string) list \<Rightarrow> stmt) \<Rightarrow> stmt" where
  "build_context X body s = body (env_vars X s) s"

text \<open>
  \<^verbatim>\<open>_configure_autotools\<close> returns the cached object when there is one. Otherwise it
  creates the object, stores it, computes the arguments from \<^verbatim>\<open>shared\<close>, adds the
  \<^verbatim>\<open>-FS\<close> flag for the Visual Studio compilers and runs \<^verbatim>\<open>configure\<close>.
\<close>

definition autotools_host :: "conanfile \<Rightarrow> string option" where
  "autotools_host s =
     (if is_msvc s \<or> is_clang_cl s
      then (if arch (settings s) = ''x86'' then Some ''i686-w64-mingw32''
            else if arch (settings s) = ''x86_64'' then Some ''x86_64-w64-mingw32''
            else None)
      else None)"

definition autotools_build :: "conanfile \<Rightarrow> bool option" where
  "autotools_build s = (if is_msvc s \<or> is_clang_cl s then Some False else None)"

definition autotools_configure_args :: "bool \<Rightarrow> string list" where
  "autotools_configure_args sh =
     (if sh then [''--disable-static'', ''--enable-shared'']
      else [''--enable-static'', ''--disable-shared''])"

definition configure_autotools ::
  "ext \<Rightarrow> (string \<times> string) list \<Rightarrow> conanfile \<Rightarrow> (error + autotools) \<times> conanfile" where
  "configure_autotools X env s =
     (case autotools_cache s of
        Some a \<Rightarrow> (Inr a, s)
      | None \<Rightarrow>
          (let host = autotools_host s;
               build = autotools_build s;
               a = autotools_build_environment X (settings s) (os_info_is_windows X);
               s1 = s\<lparr>autotools_cache := Some a\<rparr>
           in case option_true ''shared'' s1 of
                Inl e \<Rightarrow> (Inl e, s1)
              | Inr sh \<Rightarrow>
                  (let configure_args = autotools_configure_args sh;
                       a2 = (if (compiler (settings s1) = ''Visual Studio''
                                  \<and> Version_ge (compiler_version (settings s1)) (Version 12 0 0))
                                \<or> compiler (settings s1) = ''msvc''
                             then a\<lparr>flags := flags a @ [''-FS'']\<rparr> else a);
                       s2 = s1\<lparr>autotools_cache := Some a2\<rparr>
                   in case autotools_configure X env a2 configure_args host build (build_folder s2) of
                        Inl e \<Rightarrow> (Inl e, s2)
                      | Inr t \<Rightarrow>
                          (Inr a2, s2\<lparr>build_folder := t,
                                      calls := calls s2 @ [Autotools_configure configure_args host build]\<rparr>))))"

definition with_result :: "(conanfile \<Rightarrow> (error + 'a) \<times> conanfile) \<Rightarrow> ('a \<Rightarrow> stmt) \<Rightarrow> stmt" where
  "with_result m f s = (case m s of (Inl e, s') \<Rightarrow> (Some e, s') | (Inr a, s') \<Rightarrow> f a s')"

definition install_name_search :: string where
  "install_name_search = ''-install_name '' @ backslash @ ''$rpath/''"

text \<open>The two loops of \<^verbatim>\<open>_patch_sources\<close>: the patches, then the edit of both
  \<^verbatim>\<open>configure\<close> scripts.\<close>

definition apply_patches :: "ext \<Rightarrow> stmt" where
  "apply_patches X s =
     block (map (\<lambda>p. in_build_folder (Patch p) (tools_patch X p))
              (conan_data_patches X (version s))) s"

definition configure_files :: "path list" where
  "configure_files = [[source_subfolder, ''configure''],
                      [source_subfolder, ''libcharset'', ''configure'']]"

definition relocatable_shared_libs :: stmt where
  "relocatable_shared_libs =
     block (map (\<lambda>configure. replace_in_file configure
                                install_name_search ''-install_name @rpath/'')
              configure_files)"

definition patch_sources :: "ext \<Rightarrow> stmt" where
  "patch_sources X = block [apply_patches X, relocatable_shared_libs]"

definition libiconv_build :: "ext \<Rightarrow> stmt" where
  "libiconv_build X = block
     [patch_sources X,
      build_context X (\<lambda>env.
        with_result (configure_autotools X env)
          (\<lambda>a. in_build_folder Autotools_make (autotools_make X env a)))]"

definition msvc_like_shared :: "conanfile \<Rightarrow> error + bool" where
  "msvc_like_shared s = (if is_msvc s \<or> is_clang_cl s then option_true ''shared'' s else Inr False)"

definition libiconv_package :: "ext \<Rightarrow> stmt" where
  "libiconv_package X = block
     [self_copy ''COPYING.LIB'' [source_subfolder] [''licenses''],
      build_context X (\<lambda>env.
        with_result (configure_autotools X env)
          (\<lambda>a s. in_package_folder Autotools_install
                   (autotools_install X env a (build_folder s)) s)),
      in_package_folder (Remove_files_by_mask [''lib''] ''*.la'')
        (remove_files_by_mask [''lib''] ''*.la''),
      in_package_folder (Rmdir [''share'']) (rmdir [''share'']),
      cond msvc_like_shared
        (block (map (\<lambda>import_lib.
           in_package_folder
             (Rename [''lib'', import_lib @ ''.dll.lib''] [''lib'', import_lib @ ''.lib''])
             (rename [''lib'', import_lib @ ''.dll.lib''] [''lib'', import_lib @ ''.lib'']))
           [''iconv'', ''charset'']))
        skip]"

definition libiconv_package_info :: stmt where
  "libiconv_package_info = block
     [upd_cpp_info (\<lambda>c. c\<lparr>properties := (properties c)(''cmake_find_mode'' \<mapsto> ''both'')\<rparr>),
      upd_cpp_info (\<lambda>c. c\<lparr>properties := (properties c)(''cmake_file_name'' \<mapsto> ''Iconv'')\<rparr>),
      upd_cpp_info (\<lambda>c. c\<lparr>properties := (properties c)(''cmake_target_name'' \<mapsto> ''Iconv::Iconv'')\<rparr>),
      upd_cpp_info (\<lambda>c. c\<lparr>names := (names c)(''cmake_find_package'' \<mapsto> ''Iconv'')\<rparr>),
      upd_cpp_info (\<lambda>c. c\<lparr>names := (names c)(''cmake_find_package_multi'' \<mapsto> ''Iconv'')\<rparr>),
      upd_cpp_info (\<lambda>c. c\<lparr>libs := [''iconv'', ''charset'']\<rparr>),
      (\<lambda>s. (None, s\<lparr>env_info :=
                (env_info s)(''path'' \<mapsto>
                   (case env_info s ''path'' of None \<Rightarrow> [] | Some ps \<Rightarrow> ps) @ [[''bin'']])\<rparr>))]"

section \<open>The stages in the order of a run\<close>

text \<open>
  Modelled from the spec: the host runtime that calls the stages is not part of the
  repository. It calls them in a fixed order (config, requirements, source, build, package,
  package\_info), and between \<^verbatim>\<open>config_options\<close> and \<^verbatim>\<open>configure\<close> it assigns the option
  values the configuration requests; a requested option that does not exist (any more)
  is a configuration error.
\<close>

fun propagate_upstream :: "(string \<times> opt_value) list \<Rightarrow> stmt" where
  "propagate_upstream [] = skip"
| "propagate_upstream ((n, v) # down) =
     seq (\<lambda>s. case options s n of
                None \<Rightarrow> (Some (ConanException (''option '' @ n @ '' doesn't exist'')), s)
              | Some w \<Rightarrow> (None, s\<lparr>options := (options s)(n \<mapsto> v)\<rparr>))
         (propagate_upstream down)"

definition gdk_pixbuf_run_configure :: "(string \<times> opt_value) list \<Rightarrow> stmt" where
  "gdk_pixbuf_run_configure down = block
     [gdk_pixbuf_config_options, propagate_upstream down, gdk_pixbuf_configure]"

definition gdk_pixbuf_run :: "ext \<Rightarrow> (string \<times> opt_value) list \<Rightarrow> stmt" where
  "gdk_pixbuf_run X down = block
     [gdk_pixbuf_run_configure down,
      gdk_pixbuf_requirements,
      gdk_pixbuf_build_requirements,
      gdk_pixbuf_source X,
      gdk_pixbuf_build X,
      gdk_pixbuf_package X,
      gdk_pixbuf_package_info X]"

definition libiconv_run_configure :: "(string \<times> opt_value) list \<Rightarrow> stmt" where
  "libiconv_run_configure down = block
     [libiconv_config_options, propagate_upstream down, libiconv_configure]"

definition libiconv_run :: "ext \<Rightarrow> (string \<times> opt_value) list \<Rightarrow> stmt" where
  "libiconv_run X down = block
     [libiconv_run_configure down,
      libiconv_build_requirements X,
      libiconv_source X,
      libiconv_build X,
      libiconv_package X,
      libiconv_package_info]"

section \<open>Initial states and a test environment\<close>

text \<open>The \<^verbatim>\<open>default_options\<close> of the two recipes and a recipe object before any stage.\<close>

definition gdk_pixbuf_default_options :: "string \<rightharpoonup> opt_value" where
  "gdk_pixbuf_default_options =
     [''shared'' \<mapsto> OBool False, ''fPIC'' \<mapsto> OBool True, ''with_libpng'' \<mapsto> OBool True,
      ''with_libtiff'' \<mapsto> OBool True, ''with_libjpeg'' \<mapsto> OStr ''libjpeg'',
      ''with_jasper'' \<mapsto> OBool False, ''with_introspection'' \<mapsto> OBool False]"

definition libiconv_default_options :: "string \<rightharpoonup> opt_value" where
  "libiconv_default_options = [''shared'' \<mapsto> OBool False, ''fPIC'' \<mapsto> OBool True]"

definition new_conanfile :: "version \<Rightarrow> settings \<Rightarrow> (string \<rightharpoonup> opt_value) \<Rightarrow> conanfile" where
  "new_conanfile v st opts =
     \<lparr>version = v, settings = st, settings_build = None, options = opts,
      requires = Map.empty, build_requires = Map.empty, autotools_cache = None,
      build_folder = [], package_folder = [],
      cpp_info = \<lparr>libs = [], includedirs = [], names = Map.empty, cpp_defines = [],
                  system_libs = [], properties = Map.empty\<rparr>,
      env_info = Map.empty, calls = []\<rparr>"

definition target :: "string \<Rightarrow> string \<Rightarrow> string \<Rightarrow> settings" where
  "target target_os target_arch target_compiler =
     \<lparr>os = target_os, arch = target_arch, compiler = target_compiler, compiler_version = Version 16 0 0,
      compiler_libcxx = None, compiler_cppstd = None, build_type = ''Release''\<rparr>"

text \<open>
  An environment for running the stages on examples: every version has a source archive
  with the given files, there are no patches, the build tools succeed and change nothing,
  and the install step writes the given files into the package folder.
\<close>

definition test_env :: "tree \<Rightarrow> tree \<Rightarrow> ext" where
  "test_env archive installed =
     \<lparr>conan_data_sources = (\<lambda>v. Some ''https://example.org/archive.tar.gz''),
      conan_data_patches = (\<lambda>v. []),
      download = (\<lambda>url. Inr archive),
      tools_patch = (\<lambda>p t. Inr t),
      os_info_is_windows = False,
      cross_building = (\<lambda>st. False),
      environ = Map.empty,
      unix_path = (\<lambda>p. p),
      os_path_join = concat,
      build_folder_name = ''build'',
      autotools_build_environment = (\<lambda>st wb. \<lparr>win_bash = wb, flags = []\<rparr>),
      meson_configure = (\<lambda>defs args t. Inr t),
      meson_build = (\<lambda>t. Inr t),
      meson_install = (\<lambda>b p. Inr (installed @ p)),
      autotools_configure = (\<lambda>env a args host build t. Inr t),
      autotools_make = (\<lambda>env a t. Inr t),
      autotools_install = (\<lambda>env a b p. Inr (installed @ p)),
      collect_libs = (\<lambda>t. [])\<rparr>"

section \<open>What a statement leaves unchanged, and the calls it adds\<close>

definition keeps :: "(conanfile \<Rightarrow> 'a) \<Rightarrow> stmt \<Rightarrow> bool" where
  "keeps f m = (\<forall>s. f (snd (m s)) = f s)"

definition adds_calls :: "(call \<Rightarrow> bool) \<Rightarrow> stmt \<Rightarrow> bool" where
  "adds_calls P m = (\<forall>s. \<exists>cs. calls (snd (m s)) = calls s @ cs \<and> list_all P cs)"

text \<open>
  A statement that only declares requirements: it leaves the options alone, it only adds
  to the requirements, its outcome is the same from two states with the same options and
  requirements, and it changes nothing when the requirements already hold what it adds.
\<close>

definition req_step :: "stmt \<Rightarrow> bool" where
  "req_step m = (\<forall>a b. options a = options b \<longrightarrow>
     options (snd (m a)) = options a \<and>
     requires a \<subseteq>\<^sub>m requires (snd (m a)) \<and>
     (requires a = requires b \<longrightarrow>
        fst (m a) = fst (m b) \<and> requires (snd (m a)) = requires (snd (m b))) \<and>
     (requires (snd (m a)) \<subseteq>\<^sub>m requires b \<longrightarrow>
        requires (snd (m b)) = requires b \<and> fst (m b) = fst (m a)))"

text \<open>The option values of gdk-pixbuf with every codec switched off and \<^verbatim>\<open>with_jasper\<close>
  deleted.\<close>

definition gdk_pixbuf_no_codecs :: "string \<rightharpoonup> opt_value" where
  "gdk_pixbuf_no_codecs =
     [''shared'' \<mapsto> OBool False, ''fPIC'' \<mapsto> OBool True, ''with_libpng'' \<mapsto> OBool False,
      ''with_libtiff'' \<mapsto> OBool False, ''with_libjpeg'' \<mapsto> OBool False,
      ''with_introspection'' \<mapsto> OBool False]"




text \<open>The calls that rename a file of the package folder.\<close>

fun is_rename :: "call \<Rightarrow> bool" where
  "is_rename (Rename a b) = True"
| "is_rename c = False"

text \<open>
  Further examples: a shared libiconv build with the Visual Studio compiler, the import
  libraries its install step writes, and a gdk-pixbuf recipe for Linux.
\<close>

definition example_libiconv_msvc_shared :: conanfile where
  "example_libiconv_msvc_shared =
     new_conanfile (Version 1 16 0) (target ''Windows'' ''x86_64'' ''msvc'') [''shared'' \<mapsto> OBool True]"

definition example_import_libs :: tree where
  "example_import_libs =
     [([''lib'', ''iconv.dll.lib''], ''iconv import library''),
      ([''lib'', ''charset.dll.lib''], ''charset import library'')]"



section \<open>General lemmas\<close>

lemmas stmt_defs = skip_def raise_def seq_def cond_def pure_def bind_def option_attr_def
  option_true_def option_eq_def get_safe_def del_option_def del_compiler_libcxx_def
  del_compiler_cppstd_def self_requires_def self_build_requires_def

lemma fst_seq: "fst (seq m n s) = (case fst (m s) of None \<Rightarrow> fst (n (snd (m s))) | Some e \<Rightarrow> Some e)"
  by (simp add: seq_def split: prod.splits option.splits)

lemma snd_seq: "snd (seq m n s) = (case fst (m s) of None \<Rightarrow> snd (n (snd (m s))) | Some e \<Rightarrow> snd (m s))"
  by (simp add: seq_def split: prod.splits option.splits)

lemma block_append: "block (ms @ ns) = seq (block ms) (block ns)"
proof (induction ms)
  case Nil
  show ?case by (rule ext) (simp add: seq_def skip_def)
next
  case (Cons m ms)
  show ?case by (rule ext) (simp add: Cons seq_def split: prod.splits option.splits)
qed

lemma keeps_skip: "keeps f skip"
  by (simp add: keeps_def skip_def)

lemma keeps_raise: "keeps f (raise e)"
  by (simp add: keeps_def raise_def)

lemma keeps_seq: "keeps f m \<Longrightarrow> keeps f n \<Longrightarrow> keeps f (seq m n)"
  by (simp add: keeps_def snd_seq split: option.splits)

lemma keeps_cond: "keeps f m \<Longrightarrow> keeps f n \<Longrightarrow> keeps f (cond b m n)"
  by (simp add: keeps_def cond_def split: sum.splits)

lemma keeps_block: "(\<And>m. m \<in> set ms \<Longrightarrow> keeps f m) \<Longrightarrow> keeps f (block ms)"
  by (induction ms) (simp_all add: keeps_skip keeps_seq)

lemma keeps_with_result:
  "(\<And>s. f (snd (m s)) = f s) \<Longrightarrow> (\<And>a. keeps f (g a)) \<Longrightarrow> keeps f (with_result m g)"
  by (simp add: keeps_def with_result_def split: prod.splits sum.splits) (metis snd_conv)

lemma adds_calls_skip: "adds_calls P skip"
  by (simp add: adds_calls_def skip_def)

lemma adds_calls_raise: "adds_calls P (raise e)"
  by (simp add: adds_calls_def raise_def)

lemma adds_calls_seq:
  assumes "adds_calls P m" and "adds_calls P n"
  shows "adds_calls P (seq m n)"
  unfolding adds_calls_def
proof
  fix s
  from assms(1) obtain cs where cs: "calls (snd (m s)) = calls s @ cs" "list_all P cs"
    unfolding adds_calls_def by blast
  from assms(2) obtain ds where ds: "calls (snd (n (snd (m s)))) = calls (snd (m s)) @ ds" "list_all P ds"
    unfolding adds_calls_def by blast
  show "\<exists>cs. calls (snd (seq m n s)) = calls s @ cs \<and> list_all P cs"
  proof (cases "fst (m s)")
    case None
    then have "calls (snd (seq m n s)) = calls s @ (cs @ ds)"
      using cs ds by (simp add: snd_seq)
    moreover have "list_all P (cs @ ds)" using cs ds by simp
    ultimately show ?thesis by blast
  next
    case (Some e)
    then have "calls (snd (seq m n s)) = calls s @ cs"
      using cs by (simp add: snd_seq)
    then show ?thesis using cs by blast
  qed
qed

lemma adds_calls_cond: "adds_calls P m \<Longrightarrow> adds_calls P n \<Longrightarrow> adds_calls P (cond b m n)"
  by (simp add: adds_calls_def cond_def split: sum.splits)

lemma adds_calls_block: "(\<And>m. m \<in> set ms \<Longrightarrow> adds_calls P m) \<Longrightarrow> adds_calls P (block ms)"
  by (induction ms) (simp_all add: adds_calls_skip adds_calls_seq)

lemma adds_calls_in_build_folder: "P c \<Longrightarrow> adds_calls P (in_build_folder c f)"
  by (simp add: adds_calls_def in_build_folder_def split: sum.splits)

lemma adds_calls_in_package_folder: "P c \<Longrightarrow> adds_calls P (in_package_folder c f)"
  by (simp add: adds_calls_def in_package_folder_def split: sum.splits)

lemma adds_calls_same: "keeps calls m \<Longrightarrow> adds_calls P m"
  by (simp add: adds_calls_def keeps_def)

lemma keeps_del_option: "(\<And>s g. f (s\<lparr>options := g\<rparr>) = f s) \<Longrightarrow> keeps f (del_option n)"
  by (simp add: keeps_def del_option_def)

lemma keeps_del_compiler_libcxx: "(\<And>s g. f (s\<lparr>settings := g\<rparr>) = f s) \<Longrightarrow> keeps f del_compiler_libcxx"
  by (simp add: keeps_def del_compiler_libcxx_def)

lemma keeps_del_compiler_cppstd: "(\<And>s g. f (s\<lparr>settings := g\<rparr>) = f s) \<Longrightarrow> keeps f del_compiler_cppstd"
  by (simp add: keeps_def del_compiler_cppstd_def)

lemma keeps_self_requires: "(\<And>s g. f (s\<lparr>requires := g\<rparr>) = f s) \<Longrightarrow> keeps f (self_requires n v)"
  by (simp add: keeps_def self_requires_def split: option.splits)

lemma keeps_self_build_requires:
  "(\<And>s g. f (s\<lparr>build_requires := g\<rparr>) = f s) \<Longrightarrow> keeps f (self_build_requires n v)"
  by (simp add: keeps_def self_build_requires_def)

lemma keeps_in_build_folder:
  "(\<And>s g h. f (s\<lparr>build_folder := g, calls := h\<rparr>) = f s) \<Longrightarrow> keeps f (in_build_folder c t)"
  by (simp add: keeps_def in_build_folder_def split: sum.splits)

lemma keeps_in_package_folder:
  "(\<And>s g h. f (s\<lparr>package_folder := g, calls := h\<rparr>) = f s) \<Longrightarrow> keeps f (in_package_folder c t)"
  by (simp add: keeps_def in_package_folder_def split: sum.splits)

lemma keeps_replace_in_file:
  "(\<And>s g h. f (s\<lparr>build_folder := g, calls := h\<rparr>) = f s) \<Longrightarrow> keeps f (replace_in_file p w r)"
  by (simp add: replace_in_file_def keeps_in_build_folder)

lemma keeps_tools_get:
  "(\<And>s g h. f (s\<lparr>build_folder := g, calls := h\<rparr>) = f s) \<Longrightarrow> keeps f (tools_get X d)"
  by (simp add: keeps_def tools_get_def split: option.splits sum.splits)

lemma keeps_self_copy:
  "(\<And>s g h. f (s\<lparr>package_folder := g, calls := h\<rparr>) = f s) \<Longrightarrow> keeps f (self_copy n a b)"
  by (simp add: keeps_def self_copy_def split: option.splits)

lemma keeps_upd_cpp_info: "(\<And>s g. f (s\<lparr>cpp_info := g\<rparr>) = f s) \<Longrightarrow> keeps f (upd_cpp_info u)"
  by (simp add: keeps_def upd_cpp_info_def)

lemmas keeps_intros = keeps_skip keeps_raise keeps_seq keeps_cond keeps_del_option
  keeps_del_compiler_libcxx keeps_del_compiler_cppstd keeps_self_requires
  keeps_self_build_requires keeps_in_build_folder keeps_in_package_folder
  keeps_replace_in_file keeps_tools_get keeps_self_copy keeps_upd_cpp_info

lemma keepsD: "keeps f m \<Longrightarrow> f (snd (m s)) = f s"
  by (simp add: keeps_def)

lemma propagate_upstream_absent:
  "options s n = None \<Longrightarrow> options (snd (propagate_upstream down s)) n = None"
proof (induction down arbitrary: s)
  case Nil
  then show ?case by (simp add: skip_def)
next
  case (Cons a down)
  obtain m v where a: "a = (m, v)" by (cases a)
  show ?case
  proof (cases "options s m")
    case None
    with Cons.prems a show ?thesis by (simp add: seq_def)
  next
    case (Some w)
    have "options (s\<lparr>options := (options s)(m \<mapsto> v)\<rparr>) n = None"
      using Cons.prems Some by auto
    from Cons.IH[OF this] Some a show ?thesis by (simp add: seq_def)
  qed
qed

lemma propagate_upstream_keeps:
  "(\<And>s g. f (s\<lparr>options := g\<rparr>) = f s) \<Longrightarrow> keeps f (propagate_upstream down)"
proof (induction down)
  case Nil
  show ?case by (simp add: keeps_skip)
next
  case (Cons a down)
  obtain m v where a: "a = (m, v)" by (cases a)
  have "keeps f (\<lambda>s. case options s m of
                None \<Rightarrow> (Some (ConanException (''option '' @ m @ '' doesn't exist'')), s)
              | Some w \<Rightarrow> (None, s\<lparr>options := (options s)(m \<mapsto> v)\<rparr>))"
    using Cons.prems by (simp add: keeps_def split: option.splits)
  with Cons show ?case by (simp add: a keeps_seq)
qed

lemma gdk_config_options_windows:
  "os (settings s) = ''Windows'' \<Longrightarrow> options (snd (gdk_pixbuf_config_options s)) ''fPIC'' = None"
  by (simp add: gdk_pixbuf_config_options_def stmt_defs)

lemma libiconv_config_options_windows:
  "os (settings s) = ''Windows'' \<Longrightarrow> options (snd (libiconv_config_options s)) ''fPIC'' = None"
  by (simp add: libiconv_config_options_def stmt_defs)

lemma gdk_configure_absent:
  "options s n = None \<Longrightarrow> options (snd (gdk_pixbuf_configure s)) n = None"
  by (simp add: gdk_pixbuf_configure_def stmt_defs split: option.splits)

lemma libiconv_configure_absent:
  "options s n = None \<Longrightarrow> options (snd (libiconv_configure s)) n = None"
  by (simp add: libiconv_configure_def stmt_defs split: option.splits)

lemma gdk_run_configure_windows:
  "os (settings s) = ''Windows'' \<Longrightarrow> options (snd (gdk_pixbuf_run_configure down s)) ''fPIC'' = None"
  unfolding gdk_pixbuf_run_configure_def block.simps
  by (simp add: snd_seq gdk_config_options_windows propagate_upstream_absent gdk_configure_absent
      skip_def split: option.splits)

lemma libiconv_run_configure_windows:
  "os (settings s) = ''Windows'' \<Longrightarrow> options (snd (libiconv_run_configure down s)) ''fPIC'' = None"
  unfolding libiconv_run_configure_def block.simps
  by (simp add: snd_seq libiconv_config_options_windows propagate_upstream_absent
      libiconv_configure_absent skip_def split: option.splits)

lemma keeps_gdk_requirements:
  "(\<And>s g. f (s\<lparr>requires := g\<rparr>) = f s) \<Longrightarrow> keeps f gdk_pixbuf_requirements"
  unfolding gdk_pixbuf_requirements_def block.simps by (intro keeps_intros) simp_all

lemma keeps_gdk_build_requirements:
  "(\<And>s g. f (s\<lparr>build_requires := g\<rparr>) = f s) \<Longrightarrow> keeps f gdk_pixbuf_build_requirements"
  unfolding gdk_pixbuf_build_requirements_def block.simps by (intro keeps_intros) simp_all

lemma keeps_gdk_source:
  "(\<And>s g h. f (s\<lparr>build_folder := g, calls := h\<rparr>) = f s) \<Longrightarrow> keeps f (gdk_pixbuf_source X)"
proof -
  assume a: "\<And>s g h. f (s\<lparr>build_folder := g, calls := h\<rparr>) = f s"
  have 1: "keeps f (\<lambda>s. replace_in_file meson_build_file (gmodule_search (version s))
              (sq @ ''true'' @ sq) s)"
    using keeps_replace_in_file[of f, OF a] by (simp add: keeps_def)
  show ?thesis
    unfolding gdk_pixbuf_source_def block.simps
    by (intro keeps_intros 1) (simp_all add: a)
qed

lemma keeps_gdk_configure_meson:
  "(\<And>s g h. f (s\<lparr>build_folder := g, calls := h\<rparr>) = f s) \<Longrightarrow> keeps f (gdk_pixbuf_configure_meson X)"
  by (simp add: keeps_def gdk_pixbuf_configure_meson_def in_build_folder_def split: sum.splits)

lemma keeps_gdk_build:
  "(\<And>s g h. f (s\<lparr>build_folder := g, calls := h\<rparr>) = f s) \<Longrightarrow> keeps f (gdk_pixbuf_build X)"
  unfolding gdk_pixbuf_build_def block.simps
  by (intro keeps_intros keeps_gdk_configure_meson) simp_all

lemma keeps_gdk_package:
  assumes "\<And>s g h. f (s\<lparr>build_folder := g, calls := h\<rparr>) = f s"
    and "\<And>s g h. f (s\<lparr>package_folder := g, calls := h\<rparr>) = f s"
  shows "keeps f (gdk_pixbuf_package X)"
proof -
  have 1: "keeps f (\<lambda>s. in_package_folder Meson_install (meson_install X (build_folder s)) s)"
    using keeps_in_package_folder[of f, OF assms(2)] by (simp add: keeps_def)
  show ?thesis
    unfolding gdk_pixbuf_package_def block.simps
    by (intro keeps_intros keeps_gdk_configure_meson 1) (simp_all add: assms)
qed

lemma keeps_gdk_package_info:
  assumes "\<And>s g. f (s\<lparr>cpp_info := g\<rparr>) = f s" and "\<And>s g. f (s\<lparr>env_info := g\<rparr>) = f s"
  shows "keeps f (gdk_pixbuf_package_info X)"
proof -
  have 1: "keeps f (\<lambda>s. upd_cpp_info (\<lambda>c. c\<lparr>libs := collect_libs X (package_folder s)\<rparr>) s)"
    using assms by (simp add: keeps_def upd_cpp_info_def)
  have 2: "keeps f (\<lambda>s. (None, s\<lparr>env_info :=
                (env_info s)(''GDK_PIXBUF_PIXDATA'' \<mapsto> [[''bin'', ''gdk-pixbuf-pixdata'']])\<rparr>))"
    using assms by (simp add: keeps_def)
  show ?thesis
    unfolding gdk_pixbuf_package_info_def block.simps
    by (intro keeps_intros 1 2) (simp_all add: assms)
qed


lemma req_step_skip: "req_step skip"
  by (simp add: req_step_def skip_def)

lemma map_le_upd_same: "m \<subseteq>\<^sub>m m' \<Longrightarrow> m k = Some v \<Longrightarrow> m'(k \<mapsto> v) = m'"
  by (metis domI fun_upd_triv map_le_def)

lemma req_step_self_requires: "req_step (self_requires n v)"
  unfolding req_step_def
proof (intro allI impI conjI)
  fix a b :: conanfile
  assume ab: "options a = options b"
  show "options (snd (self_requires n v a)) = options a"
    by (simp add: self_requires_def split: option.splits)
  show "requires a \<subseteq>\<^sub>m requires (snd (self_requires n v a))"
    by (auto simp add: self_requires_def map_le_def split: option.splits)
  {
    assume "requires a = requires b"
    then show "fst (self_requires n v a) = fst (self_requires n v b)"
      and "requires (snd (self_requires n v a)) = requires (snd (self_requires n v b))"
      by (simp_all add: self_requires_def split: option.splits)
  }
  {
    assume le: "requires (snd (self_requires n v a)) \<subseteq>\<^sub>m requires b"
    show "requires (snd (self_requires n v b)) = requires b"
    proof (cases "requires a n")
      case None
      then have "requires b n = Some v"
        using le by (auto simp add: self_requires_def map_le_def split: if_splits)
      then show ?thesis by (simp add: self_requires_def fun_upd_idem_iff)
    next
      case (Some w)
      then have "requires b n = Some w"
        using le by (auto simp add: self_requires_def map_le_def dom_def split: if_splits)
      then show ?thesis by (simp add: self_requires_def fun_upd_idem_iff)
    qed
    show "fst (self_requires n v b) = fst (self_requires n v a)"
    proof (cases "requires a n")
      case None
      then have "requires b n = Some v"
        using le by (auto simp add: self_requires_def map_le_def split: if_splits)
      then show ?thesis using None by (simp add: self_requires_def)
    next
      case (Some w)
      then have "requires b n = Some w"
        using le by (auto simp add: self_requires_def map_le_def dom_def split: if_splits)
      then show ?thesis using Some by (simp add: self_requires_def)
    qed
  }
qed

lemma req_step_seq:
  assumes m: "req_step m" and n: "req_step n"
  shows "req_step (seq m n)"
  unfolding req_step_def
proof (intro allI impI)
  fix a b :: conanfile
  assume ab: "options a = options b"
  let ?a' = "snd (m a)" and ?b' = "snd (m b)"
  note ma' = m[unfolded req_step_def, rule_format, OF ab]
  from ma' have ma: "options ?a' = options a" "requires a \<subseteq>\<^sub>m requires ?a'" by simp_all
  from ma' have meq: "requires a = requires b \<Longrightarrow> fst (m a) = fst (m b) \<and> requires ?a' = requires ?b'"
    by simp
  from ma' have mle: "requires ?a' \<subseteq>\<^sub>m requires b \<Longrightarrow> requires ?b' = requires b \<and> fst (m b) = fst (m a)"
    by simp
  have mb: "options ?b' = options b"
    using m[unfolded req_step_def, rule_format, of b b] by simp
  have ab': "options ?a' = options ?b'" using ma mb ab by simp
  note na' = n[unfolded req_step_def, rule_format, OF ab']
  from na' have na: "options (snd (n ?a')) = options ?a'" "requires ?a' \<subseteq>\<^sub>m requires (snd (n ?a'))"
    by simp_all
  from na' have neq: "requires ?a' = requires ?b' \<Longrightarrow>
        fst (n ?a') = fst (n ?b') \<and> requires (snd (n ?a')) = requires (snd (n ?b'))"
    by simp
  from na' have nle: "requires (snd (n ?a')) \<subseteq>\<^sub>m requires ?b' \<Longrightarrow>
        requires (snd (n ?b')) = requires ?b' \<and> fst (n ?b') = fst (n ?a')"
    by simp
  show "options (snd (seq m n a)) = options a \<and>
        requires a \<subseteq>\<^sub>m requires (snd (seq m n a)) \<and>
        (requires a = requires b \<longrightarrow>
          fst (seq m n a) = fst (seq m n b) \<and> requires (snd (seq m n a)) = requires (snd (seq m n b))) \<and>
        (requires (snd (seq m n a)) \<subseteq>\<^sub>m requires b \<longrightarrow>
          requires (snd (seq m n b)) = requires b \<and> fst (seq m n b) = fst (seq m n a))"
  proof (cases "fst (m a)")
    case None
    have 1: "options (snd (seq m n a)) = options a" using None ma na by (simp add: snd_seq)
    have 2: "requires a \<subseteq>\<^sub>m requires (snd (seq m n a))"
      using None ma na by (simp add: snd_seq) (metis map_le_trans)
    have 3: "fst (seq m n a) = fst (seq m n b) \<and> requires (snd (seq m n a)) = requires (snd (seq m n b))"
      if "requires a = requires b"
      using meq[OF that] neq None by (simp add: fst_seq snd_seq)
    have 4: "requires (snd (seq m n b)) = requires b \<and> fst (seq m n b) = fst (seq m n a)"
      if le: "requires (snd (seq m n a)) \<subseteq>\<^sub>m requires b"
    proof -
      from le None have le': "requires (snd (n ?a')) \<subseteq>\<^sub>m requires b" by (simp add: snd_seq)
      with na have "requires ?a' \<subseteq>\<^sub>m requires b" by (metis map_le_trans)
      from mle[OF this] have b': "requires ?b' = requires b" "fst (m b) = None" using None by simp_all
      from nle le' b' have "requires (snd (n ?b')) = requires b \<and> fst (n ?b') = fst (n ?a')" by simp
      then show ?thesis using None b' by (simp add: fst_seq snd_seq)
    qed
    from 1 2 3 4 show ?thesis by blast
  next
    case (Some e)
    have 1: "options (snd (seq m n a)) = options a" using Some ma by (simp add: snd_seq)
    have 2: "requires a \<subseteq>\<^sub>m requires (snd (seq m n a))" using Some ma by (simp add: snd_seq)
    have 3: "fst (seq m n a) = fst (seq m n b) \<and> requires (snd (seq m n a)) = requires (snd (seq m n b))"
      if "requires a = requires b"
    proof -
      from meq[OF that] Some have "fst (m b) = Some e" "requires ?a' = requires ?b'" by simp_all
      then show ?thesis using Some by (simp add: fst_seq snd_seq)
    qed
    have 4: "requires (snd (seq m n b)) = requires b \<and> fst (seq m n b) = fst (seq m n a)"
      if le: "requires (snd (seq m n a)) \<subseteq>\<^sub>m requires b"
    proof -
      from le Some have "requires ?a' \<subseteq>\<^sub>m requires b" by (simp add: snd_seq)
      from mle[OF this] show ?thesis using Some by (simp add: fst_seq snd_seq)
    qed
    from 1 2 3 4 show ?thesis by blast
  qed
qed

lemma req_step_cond:
  assumes "\<And>a b. options a = options b \<Longrightarrow> c a = c b" and "req_step m" and "req_step n"
  shows "req_step (cond c m n)"
  unfolding req_step_def
proof (intro allI impI)
  fix a b :: conanfile
  assume ab: "options a = options b"
  then have c: "c a = c b" by (rule assms(1))
  show "options (snd (cond c m n a)) = options a \<and>
        requires a \<subseteq>\<^sub>m requires (snd (cond c m n a)) \<and>
        (requires a = requires b \<longrightarrow>
          fst (cond c m n a) = fst (cond c m n b) \<and>
          requires (snd (cond c m n a)) = requires (snd (cond c m n b))) \<and>
        (requires (snd (cond c m n a)) \<subseteq>\<^sub>m requires b \<longrightarrow>
          requires (snd (cond c m n b)) = requires b \<and> fst (cond c m n b) = fst (cond c m n a))"
  proof (cases "c b")
    case (Inl e)
    then show ?thesis using c by (simp add: cond_def)
  next
    case (Inr t)
    show ?thesis
    proof (cases t)
      case True
      with Inr c have "cond c m n a = m a" "cond c m n b = m b" by (simp_all add: cond_def)
      then show ?thesis using assms(2)[unfolded req_step_def, rule_format, OF ab] by simp
    next
      case False
      with Inr c have "cond c m n a = n a" "cond c m n b = n b" by (simp_all add: cond_def)
      then show ?thesis using assms(3)[unfolded req_step_def, rule_format, OF ab] by simp
    qed
  qed
qed



lemma seq_requires_grow:
  assumes "req_step n" and "fst (m s) = None" and "requires (snd (m s)) k = Some v"
  shows "requires (snd (seq m n s)) k = Some v"
proof -
  have "requires (snd (m s)) \<subseteq>\<^sub>m requires (snd (n (snd (m s))))"
    using assms(1)[unfolded req_step_def, rule_format, of "snd (m s)" "snd (m s)"] by simp
  then have "requires (snd (n (snd (m s)))) k = Some v"
    using assms(3) by (metis domI map_le_def)
  then show ?thesis using assms(2) by (simp add: snd_seq)
qed


lemma keeps_build_context: "(\<And>env. keeps f (body env)) \<Longrightarrow> keeps f (build_context X body)"
  by (simp add: keeps_def build_context_def)

lemma keeps_configure_autotools:
  assumes "\<And>s g. f (s\<lparr>autotools_cache := g\<rparr>) = f s"
    and "\<And>s g h. f (s\<lparr>build_folder := g, calls := h\<rparr>) = f s"
  shows "f (snd (configure_autotools X env s)) = f s"
  by (simp add: configure_autotools_def Let_def assms split: option.splits sum.splits)

lemma keeps_libiconv_build_requirements:
  "(\<And>s g. f (s\<lparr>build_requires := g\<rparr>) = f s) \<Longrightarrow> keeps f (libiconv_build_requirements X)"
  unfolding libiconv_build_requirements_def block.simps by (intro keeps_intros) simp_all

lemma keeps_apply_patches:
  assumes "\<And>s g h. f (s\<lparr>build_folder := g, calls := h\<rparr>) = f s"
  shows "keeps f (apply_patches X)"
proof -
  have "keeps f (block (map (\<lambda>p. in_build_folder (Patch p) (tools_patch X p)) ps))" for ps
    by (rule keeps_block) (auto intro: keeps_in_build_folder assms)
  then show ?thesis by (simp add: keeps_def apply_patches_def)
qed

lemma keeps_relocatable_shared_libs:
  assumes "\<And>s g h. f (s\<lparr>build_folder := g, calls := h\<rparr>) = f s"
  shows "keeps f relocatable_shared_libs"
  unfolding relocatable_shared_libs_def
  by (rule keeps_block) (auto intro: keeps_replace_in_file assms)

lemma keeps_patch_sources:
  assumes "\<And>s g h. f (s\<lparr>build_folder := g, calls := h\<rparr>) = f s"
  shows "keeps f (patch_sources X)"
  unfolding patch_sources_def block.simps
  by (intro keeps_seq keeps_skip keeps_apply_patches keeps_relocatable_shared_libs assms)

lemma keeps_libiconv_build:
  assumes "\<And>s g. f (s\<lparr>autotools_cache := g\<rparr>) = f s"
    and "\<And>s g h. f (s\<lparr>build_folder := g, calls := h\<rparr>) = f s"
  shows "keeps f (libiconv_build X)"
  unfolding libiconv_build_def block.simps
  by (intro keeps_seq keeps_skip keeps_patch_sources keeps_build_context keeps_with_result
        keeps_configure_autotools keeps_in_build_folder assms)

lemma keeps_libiconv_package:
  assumes "\<And>s g. f (s\<lparr>autotools_cache := g\<rparr>) = f s"
    and "\<And>s g h. f (s\<lparr>build_folder := g, calls := h\<rparr>) = f s"
    and "\<And>s g h. f (s\<lparr>package_folder := g, calls := h\<rparr>) = f s"
  shows "keeps f (libiconv_package X)"
proof -
  have 1: "keeps f (\<lambda>s. in_package_folder Autotools_install
                   (autotools_install X env a (build_folder s)) s)" for env a
    using keeps_in_package_folder[of f, OF assms(3)] by (simp add: keeps_def)
  have 2: "keeps f (block (map (\<lambda>import_lib.
           in_package_folder
             (Rename [''lib'', import_lib @ ''.dll.lib''] [''lib'', import_lib @ ''.lib''])
             (rename [''lib'', import_lib @ ''.dll.lib''] [''lib'', import_lib @ ''.lib'']))
           [''iconv'', ''charset'']))"
    by (rule keeps_block) (auto intro: keeps_in_package_folder assms)
  show ?thesis
    unfolding libiconv_package_def block.simps
    by (intro keeps_seq keeps_skip keeps_cond keeps_self_copy keeps_build_context
          keeps_with_result keeps_configure_autotools keeps_in_package_folder 1 2 assms)
qed

lemma keeps_libiconv_package_info:
  assumes "\<And>s g. f (s\<lparr>cpp_info := g\<rparr>) = f s" and "\<And>s g. f (s\<lparr>env_info := g\<rparr>) = f s"
  shows "keeps f libiconv_package_info"
proof -
  have 2: "keeps f (\<lambda>s. (None, s\<lparr>env_info :=
                (env_info s)(''path'' \<mapsto>
                   (case env_info s ''path'' of None \<Rightarrow> [] | Some ps \<Rightarrow> ps) @ [[''bin'']])\<rparr>))"
    using assms by (simp add: keeps_def)
  show ?thesis
    unfolding libiconv_package_info_def block.simps
    by (intro keeps_seq keeps_skip keeps_upd_cpp_info 2 assms)
qed

lemma seq_keeps_right: "keeps f n \<Longrightarrow> f (snd (seq m n s)) = f (snd (m s))"
  by (simp add: snd_seq keeps_def split: option.splits)

lemma keeps_options_gdk_pixbuf_stages:
  "keeps options (block [gdk_pixbuf_requirements, gdk_pixbuf_build_requirements,
      gdk_pixbuf_source X, gdk_pixbuf_build X, gdk_pixbuf_package X, gdk_pixbuf_package_info X])"
  by (rule keeps_block)
     (auto intro: keeps_gdk_requirements keeps_gdk_build_requirements keeps_gdk_source
        keeps_gdk_build keeps_gdk_package keeps_gdk_package_info)

lemma keeps_options_libiconv_stages:
  "keeps options (block [libiconv_build_requirements X, libiconv_source X, libiconv_build X,
      libiconv_package X, libiconv_package_info])"
  unfolding libiconv_source_def
  by (rule keeps_block)
     (auto intro: keeps_libiconv_build_requirements keeps_tools_get keeps_libiconv_build
        keeps_libiconv_package keeps_libiconv_package_info)

lemma req_step_gdk_pixbuf_requirements: "req_step gdk_pixbuf_requirements"
  unfolding gdk_pixbuf_requirements_def block.simps
  by (intro req_step_seq req_step_cond req_step_self_requires req_step_skip)
     (simp_all add: option_true_def option_eq_def option_attr_def get_safe_def)

lemma gdk_pixbuf_build_requirements_eq:
  "gdk_pixbuf_build_requirements s =
     (case options s ''with_introspection'' of
        None \<Rightarrow> (Some (ConanException ''option with_introspection doesn't exist''),
                 s\<lparr>build_requires := (build_requires s)(''meson'' \<mapsto> ''0.61.2'', ''pkgconf'' \<mapsto> ''1.7.4'')\<rparr>)
      | Some v \<Rightarrow>
          (None, s\<lparr>build_requires :=
             if truthy v
             then (build_requires s)(''meson'' \<mapsto> ''0.61.2'', ''pkgconf'' \<mapsto> ''1.7.4'',
                    ''gobject-introspection'' \<mapsto> ''1.70.0'')
             else (build_requires s)(''meson'' \<mapsto> ''0.61.2'', ''pkgconf'' \<mapsto> ''1.7.4'')\<rparr>))"
  by (simp add: gdk_pixbuf_build_requirements_def stmt_defs split: option.splits)

lemma libiconv_build_requirements_eq:
  "libiconv_build_requirements X s =
     (None, if os (the_settings_build s) = ''Windows'' \<and> \<not> get_env_set X ''CONAN_BASH_PATH''
            then s\<lparr>build_requires := (build_requires s)(''msys2'' \<mapsto> ''cci.latest'')\<rparr> else s)"
  by (simp add: libiconv_build_requirements_def stmt_defs)

lemma keeps_gdk_config_options:
  "(\<And>s g. f (s\<lparr>options := g\<rparr>) = f s) \<Longrightarrow> keeps f gdk_pixbuf_config_options"
  unfolding gdk_pixbuf_config_options_def block.simps by (intro keeps_intros) simp_all

lemma keeps_gdk_configure:
  "(\<And>s g. f (s\<lparr>options := g\<rparr>) = f s) \<Longrightarrow> (\<And>s g. f (s\<lparr>settings := g\<rparr>) = f s)
     \<Longrightarrow> keeps f gdk_pixbuf_configure"
  unfolding gdk_pixbuf_configure_def block.simps by (intro keeps_intros) simp_all

lemma keeps_gdk_run_configure:
  assumes "\<And>s g. f (s\<lparr>options := g\<rparr>) = f s" and "\<And>s g. f (s\<lparr>settings := g\<rparr>) = f s"
  shows "keeps f (gdk_pixbuf_run_configure down)"
  unfolding gdk_pixbuf_run_configure_def block.simps
  by (intro keeps_seq keeps_skip keeps_gdk_config_options keeps_gdk_configure
        propagate_upstream_keeps assms)

lemma fst_gdk_config_options: "fst (gdk_pixbuf_config_options s) = None"
  by (simp add: gdk_pixbuf_config_options_def stmt_defs)

lemma gdk_config_options_other:
  "n \<noteq> ''fPIC'' \<Longrightarrow> n \<noteq> ''with_jasper'' \<Longrightarrow>
     options (snd (gdk_pixbuf_config_options s)) n = options s n"
  by (simp add: gdk_pixbuf_config_options_def stmt_defs)

lemma gdk_config_options_with_jasper:
  "Version_ge (version s) (Version 2 42 0) \<Longrightarrow>
     options (snd (gdk_pixbuf_config_options s)) ''with_jasper'' = None"
  by (simp add: gdk_pixbuf_config_options_def stmt_defs)

lemma propagate_upstream_present:
  "options s n = Some v \<Longrightarrow> \<exists>w. options (snd (propagate_upstream down s)) n = Some w"
proof (induction down arbitrary: s v)
  case Nil
  then show ?case by (simp add: skip_def)
next
  case (Cons a down)
  obtain m u where a: "a = (m, u)" by (cases a)
  show ?case
  proof (cases "options s m")
    case None
    with Cons.prems a show ?thesis by (simp add: seq_def)
  next
    case (Some w)
    have "\<exists>x. options (s\<lparr>options := (options s)(m \<mapsto> u)\<rparr>) n = Some x"
      using Cons.prems by auto
    then obtain x where "options (s\<lparr>options := (options s)(m \<mapsto> u)\<rparr>) n = Some x" ..
    from Cons.IH[OF this] Some a show ?thesis by (simp add: seq_def)
  qed
qed

lemma propagate_upstream_fails:
  "options s k = None \<Longrightarrow> (k, v) \<in> set down \<Longrightarrow>
     \<exists>n. fst (propagate_upstream down s) = Some (ConanException (''option '' @ n @ '' doesn't exist''))"
proof (induction down arbitrary: s)
  case Nil
  then show ?case by simp
next
  case (Cons a down)
  obtain m u where a: "a = (m, u)" by (cases a)
  show ?case
  proof (cases "options s m")
    case None
    with a show ?thesis by (simp add: seq_def)
  next
    case (Some w)
    then have mk: "m \<noteq> k" using Cons.prems(1) by auto
    then have 1: "options (s\<lparr>options := (options s)(m \<mapsto> u)\<rparr>) k = None"
      using Cons.prems(1) by simp
    have 2: "(k, v) \<in> set down" using Cons.prems(2) a mk by auto
    from Cons.IH[OF 1 2] Some a show ?thesis by (simp add: seq_def)
  qed
qed

lemma gdk_configure_macos:
  "os (settings s) = ''Macos'' \<Longrightarrow> options s ''shared'' = Some v \<Longrightarrow>
     fst (gdk_pixbuf_configure s)
       = Some (ConanInvalidConfiguration ''This package does not support Macos currently'')"
  by (simp add: gdk_pixbuf_configure_def stmt_defs)

lemma seq_fails: "fst (m s) = Some e \<Longrightarrow> seq m n s = m s"
  by (cases "m s") (simp add: seq_def)

lemma configure_autotools_cached:
  "autotools_cache s = Some a \<Longrightarrow> configure_autotools X env s = (Inr a, s)"
  by (simp add: configure_autotools_def)

lemma option_true_Some: "options s n = Some v \<Longrightarrow> option_true n s = Inr (truthy v)"
  by (simp add: option_true_def option_attr_def bind_def)

lemma configure_autotools_calls:
  assumes "autotools_cache s = None" and "options s ''shared'' = Some v"
  shows "calls (snd (configure_autotools X env s))
        = calls s @ (case fst (configure_autotools X env s) of
                       Inl e \<Rightarrow> []
                     | Inr a \<Rightarrow> [Autotools_configure (autotools_configure_args (truthy v))
                         (autotools_host s) (autotools_build s)])"
proof -
  let ?a = "autotools_build_environment X (settings s) (os_info_is_windows X)"
  let ?s1 = "s\<lparr>autotools_cache := Some ?a\<rparr>"
  have sh: "option_true ''shared'' ?s1 = Inr (truthy v)"
    using assms(2) by (simp add: option_true_Some)
  have hb: "autotools_host ?s1 = autotools_host s" "autotools_build ?s1 = autotools_build s"
    by (simp_all add: autotools_host_def autotools_build_def is_msvc_def is_clang_cl_def)
  show ?thesis
    unfolding configure_autotools_def
    using assms(1) by (simp add: Let_def sh split: sum.splits)
qed

lemma seq_ok: "m s = (None, s') \<Longrightarrow> seq m n s = n s'"
  by (simp add: seq_def)














lemma adds_calls_D: "adds_calls P m \<Longrightarrow> \<exists>cs. calls (snd (m s)) = calls s @ cs \<and> list_all P cs"
  by (simp add: adds_calls_def)

lemma adds_calls_build_context:
  "(\<And>env. adds_calls P (body env)) \<Longrightarrow> adds_calls P (build_context X body)"
  by (simp add: adds_calls_def build_context_def)

lemma adds_calls_with_result:
  assumes "\<And>s. \<exists>cs. calls (snd (m s)) = calls s @ cs \<and> list_all P cs"
    and "\<And>a. adds_calls P (g a)"
  shows "adds_calls P (with_result m g)"
  unfolding adds_calls_def
proof
  fix s
  from assms(1) obtain cs where cs: "calls (snd (m s)) = calls s @ cs" "list_all P cs" by blast
  show "\<exists>cs. calls (snd (with_result m g s)) = calls s @ cs \<and> list_all P cs"
  proof (cases "fst (m s)")
    case (Inl e)
    then have "snd (with_result m g s) = snd (m s)"
      by (cases "m s") (simp add: with_result_def)
    then show ?thesis using cs by auto
  next
    case (Inr a)
    then have eq: "with_result m g s = g a (snd (m s))"
      by (cases "m s") (simp add: with_result_def)
    from assms(2)[of a] obtain ds where
      "calls (snd (g a (snd (m s)))) = calls (snd (m s)) @ ds" "list_all P ds"
      unfolding adds_calls_def by blast
    then have "calls (snd (with_result m g s)) = calls s @ (cs @ ds)" "list_all P (cs @ ds)"
      using cs eq by simp_all
    then show ?thesis by blast
  qed
qed

lemma configure_autotools_adds_calls:
  assumes "\<And>a h b. P (Autotools_configure a h b)"
  shows "\<exists>cs. calls (snd (configure_autotools X env s)) = calls s @ cs \<and> list_all P cs"
  by (simp add: configure_autotools_def Let_def assms split: option.splits sum.splits)

lemma adds_calls_self_copy: "(\<And>a b. P (Copy a b)) \<Longrightarrow> adds_calls P (self_copy n src dst)"
  by (simp add: adds_calls_def self_copy_def split: option.splits)

lemma adds_calls_dep: "(\<And>x. adds_calls P (m x)) \<Longrightarrow> adds_calls P (\<lambda>s. m (g s) s)"
  by (simp add: adds_calls_def)


lemma seq_skip: "seq m skip = m"
  by (rule ext) (simp add: seq_def skip_def split: prod.splits option.splits)

lemma block_snoc: "block (ms @ [m]) = seq (block ms) m"
  by (simp add: block_append seq_skip)

lemma in_package_folder_ok:
  assumes "fst (in_package_folder c f s) = None"
  shows "\<exists>t. f (package_folder s) = Inr t
           \<and> snd (in_package_folder c f s) = s\<lparr>package_folder := t, calls := calls s @ [c]\<rparr>"
  using assms by (cases "f (package_folder s)") (simp_all add: in_package_folder_def)

lemma rmdir_step:
  "in_package_folder c (rmdir d) s
     = (None, s\<lparr>package_folder := filter (\<lambda>(p, c). \<not> prefix d p) (package_folder s),
                 calls := calls s @ [c]\<rparr>)"
  by (simp add: in_package_folder_def rmdir_def)

lemma remove_files_by_mask_step:
  "in_package_folder c (remove_files_by_mask d pat) s
     = (None, s\<lparr>package_folder :=
                   filter (\<lambda>(p, c). \<not> (prefix d p \<and> p \<noteq> d \<and> matches_mask pat p)) (package_folder s),
                 calls := calls s @ [c]\<rparr>)"
  by (simp add: in_package_folder_def remove_files_by_mask_def)

lemma keys_delete: "fst ` set (AList.delete k al) = fst ` set al - {k}"
  by (auto simp add: AList.delete_eq)

lemma os_rename_keys:
  assumes "os_rename a b t = Inr t'"
  shows "fst ` set t' = insert b (fst ` set t - {a})"
proof -
  from assms obtain c where "t' = AList.update b c (AList.delete a t)"
    by (auto simp add: os_rename_def split: option.splits)
  then have "fst ` set t' = {b} \<union> (fst ` set t - {a})"
    by (simp only: dom_update keys_delete)
  then show ?thesis by simp
qed

lemma rename_keys:
  assumes "rename a b t = Inr t'"
  shows "fst ` set t' = insert b (fst ` set t - {a})"
proof -
  from assms have "os_rename a b t = Inr t'"
    by (simp add: rename_def split: if_splits sum.splits)
  then show ?thesis by (rule os_rename_keys)
qed

lemma rename_moves:
  "rename a b t = Inr t' \<Longrightarrow> a \<noteq> b \<Longrightarrow>
     map_of t' b = map_of t a \<and> map_of t a \<noteq> None \<and> map_of t' a = None
     \<and> (\<forall>p. p \<noteq> a \<longrightarrow> p \<noteq> b \<longrightarrow> map_of t' p = map_of t p)"
  by (auto simp add: rename_def os_rename_def update_conv' delete_conv'
      split: if_splits sum.splits option.splits)

lemma libiconv_package_split:
  "libiconv_package X = seq
     (block
       [self_copy ''COPYING.LIB'' [source_subfolder] [''licenses''],
        build_context X (\<lambda>env.
          with_result (configure_autotools X env)
            (\<lambda>a s. in_package_folder Autotools_install
                     (autotools_install X env a (build_folder s)) s)),
        in_package_folder (Remove_files_by_mask [''lib''] ''*.la'')
          (remove_files_by_mask [''lib''] ''*.la''),
        in_package_folder (Rmdir [''share'']) (rmdir [''share''])])
     (cond msvc_like_shared
        (block (map (\<lambda>import_lib.
           in_package_folder
             (Rename [''lib'', import_lib @ ''.dll.lib''] [''lib'', import_lib @ ''.lib''])
             (rename [''lib'', import_lib @ ''.dll.lib''] [''lib'', import_lib @ ''.lib'']))
           [''iconv'', ''charset'']))
        skip)"
  unfolding libiconv_package_def by (subst block_snoc[symmetric]) simp


lemma seq_None:
  "fst (seq m n s) = None \<Longrightarrow>
     fst (m s) = None \<and> fst (n (snd (m s))) = None \<and> snd (seq m n s) = snd (n (snd (m s)))"
  by (simp add: fst_seq snd_seq split: option.splits)

lemma libiconv_package_completed:
  assumes "fst (libiconv_package X s) = None"
  shows "\<exists>s4. settings s4 = settings s \<and> options s4 = options s
           \<and> (\<exists>cs. calls s4 = calls s @ cs \<and> list_all (\<lambda>c. \<not> is_rename c) cs)
           \<and> (\<forall>p \<in> fst ` set (package_folder s4).
                 \<not> prefix [''share''] p
                 \<and> \<not> (prefix [''lib''] p \<and> p \<noteq> [''lib''] \<and> matches_mask ''*.la'' p))
           \<and> (case msvc_like_shared s of
                 Inl e \<Rightarrow> False
               | Inr sh \<Rightarrow>
                   if sh
                   then \<exists>t5 t6.
                          rename [''lib'', ''iconv.dll.lib''] [''lib'', ''iconv.lib'']
                            (package_folder s4) = Inr t5
                        \<and> rename [''lib'', ''charset.dll.lib''] [''lib'', ''charset.lib''] t5 = Inr t6
                        \<and> snd (libiconv_package X s)
                            = s4\<lparr>package_folder := t6,
                                 calls := calls s4 @
                                   [Rename [''lib'', ''iconv.dll.lib''] [''lib'', ''iconv.lib''],
                                    Rename [''lib'', ''charset.dll.lib''] [''lib'', ''charset.lib'']]\<rparr>
                   else snd (libiconv_package X s) = s4)"
proof -
  let ?copy = "self_copy ''COPYING.LIB'' [source_subfolder] [''licenses'']"
  let ?inst = "build_context X (\<lambda>env.
          with_result (configure_autotools X env)
            (\<lambda>a s. in_package_folder Autotools_install
                     (autotools_install X env a (build_folder s)) s))"
  let ?rm = "in_package_folder (Remove_files_by_mask [''lib''] ''*.la'')
          (remove_files_by_mask [''lib''] ''*.la'')"
  let ?rd = "in_package_folder (Rmdir [''share'']) (rmdir [''share''])"
  let ?r1 = "in_package_folder
             (Rename [''lib'', ''iconv.dll.lib''] [''lib'', ''iconv.lib''])
             (rename [''lib'', ''iconv.dll.lib''] [''lib'', ''iconv.lib''])"
  let ?r2 = "in_package_folder
             (Rename [''lib'', ''charset.dll.lib''] [''lib'', ''charset.lib''])
             (rename [''lib'', ''charset.dll.lib''] [''lib'', ''charset.lib''])"
  let ?ren = "cond msvc_like_shared (block [?r1, ?r2]) skip"
  let ?pre = "block [?copy, ?inst, ?rm, ?rd]"
  let ?s4 = "snd (?pre s)"
  have split: "libiconv_package X = seq ?pre ?ren"
    by (simp add: libiconv_package_split)
  have inst_keeps: "keeps f ?inst"
    if "\<And>s g. f (s\<lparr>autotools_cache := g\<rparr>) = f s"
      "\<And>s g h. f (s\<lparr>build_folder := g, calls := h\<rparr>) = f s"
      "\<And>s g h. f (s\<lparr>package_folder := g, calls := h\<rparr>) = f s" for f :: "conanfile \<Rightarrow> 'b"
  proof -
    have "keeps f (\<lambda>s. in_package_folder Autotools_install
                   (autotools_install X env a (build_folder s)) s)" for env a
      using keeps_in_package_folder[of f, OF that(3)] by (simp add: keeps_def)
    then show ?thesis
      by (intro keeps_build_context keeps_with_result keeps_configure_autotools that)
  qed
  have pre_keeps: "keeps f ?pre"
    if "\<And>s g. f (s\<lparr>autotools_cache := g\<rparr>) = f s"
      "\<And>s g h. f (s\<lparr>build_folder := g, calls := h\<rparr>) = f s"
      "\<And>s g h. f (s\<lparr>package_folder := g, calls := h\<rparr>) = f s" for f :: "conanfile \<Rightarrow> 'b"
    unfolding block.simps
    by (intro keeps_seq keeps_skip keeps_self_copy keeps_in_package_folder inst_keeps that)
  have st: "settings ?s4 = settings s" by (rule keepsD[OF pre_keeps]) simp_all
  have op: "options ?s4 = options s" by (rule keepsD[OF pre_keeps]) simp_all
  have inst_calls: "adds_calls (\<lambda>c. \<not> is_rename c) ?inst"
  proof -
    have "adds_calls (\<lambda>c. \<not> is_rename c) (\<lambda>s. in_package_folder Autotools_install
                   (autotools_install X env a (build_folder s)) s)" for env a
      using adds_calls_in_package_folder[of "\<lambda>c. \<not> is_rename c" Autotools_install]
      by (simp add: adds_calls_def)
    then show ?thesis
      by (intro adds_calls_build_context adds_calls_with_result configure_autotools_adds_calls)
         simp_all
  qed
  have "adds_calls (\<lambda>c. \<not> is_rename c) ?pre"
    unfolding block.simps
    by (intro adds_calls_seq adds_calls_skip adds_calls_self_copy adds_calls_in_package_folder
          inst_calls) simp_all
  then have cl: "\<exists>cs. calls ?s4 = calls s @ cs \<and> list_all (\<lambda>c. \<not> is_rename c) cs"
    by (rule adds_calls_D)
  have pre_ok: "fst (?pre s) = None" and ren_ok: "fst (?ren ?s4) = None"
    using assms by (simp_all add: split fst_seq split: option.splits)
  have s': "snd (libiconv_package X s) = snd (?ren ?s4)"
    using pre_ok by (simp add: split snd_seq)
  have pre2: "?pre = seq (block [?copy, ?inst]) (block [?rm, ?rd])"
    using block_append[of "[?copy, ?inst]" "[?rm, ?rd]"] by simp
  have clean: "package_folder (snd (block [?rm, ?rd] x))
      = filter (\<lambda>(p, c). \<not> prefix [''share''] p)
          (filter (\<lambda>(p, c). \<not> (prefix [''lib''] p \<and> p \<noteq> [''lib''] \<and> matches_mask ''*.la'' p))
             (package_folder x))" for x
    by (simp add: seq_def skip_def rmdir_step remove_files_by_mask_step)
  have "snd (seq (block [?copy, ?inst]) (block [?rm, ?rd]) s)
          = snd (block [?rm, ?rd] (snd (block [?copy, ?inst] s)))"
    by (rule seq_None[THEN conjunct2, THEN conjunct2]) (rule pre_ok[unfolded pre2])
  then have "package_folder ?s4
      = package_folder (snd (block [?rm, ?rd] (snd (block [?copy, ?inst] s))))"
    by (simp only: pre2)
  then have "package_folder ?s4
      = filter (\<lambda>(p, c). \<not> prefix [''share''] p)
          (filter (\<lambda>(p, c). \<not> (prefix [''lib''] p \<and> p \<noteq> [''lib''] \<and> matches_mask ''*.la'' p))
             (package_folder (snd (block [?copy, ?inst] s))))"
    by (simp only: clean)
  then have tr: "\<forall>p \<in> fst ` set (package_folder ?s4).
                 \<not> prefix [''share''] p
                 \<and> \<not> (prefix [''lib''] p \<and> p \<noteq> [''lib''] \<and> matches_mask ''*.la'' p)"
    by auto
  have ms: "msvc_like_shared ?s4 = msvc_like_shared s"
    using st op by (simp add: msvc_like_shared_def is_msvc_def is_clang_cl_def
        option_true_def option_attr_def)
  have last: "case msvc_like_shared s of
                 Inl e \<Rightarrow> False
               | Inr sh \<Rightarrow>
                   if sh
                   then \<exists>t5 t6.
                          rename [''lib'', ''iconv.dll.lib''] [''lib'', ''iconv.lib'']
                            (package_folder ?s4) = Inr t5
                        \<and> rename [''lib'', ''charset.dll.lib''] [''lib'', ''charset.lib''] t5 = Inr t6
                        \<and> snd (libiconv_package X s)
                            = ?s4\<lparr>package_folder := t6,
                                 calls := calls ?s4 @
                                   [Rename [''lib'', ''iconv.dll.lib''] [''lib'', ''iconv.lib''],
                                    Rename [''lib'', ''charset.dll.lib''] [''lib'', ''charset.lib'']]\<rparr>
                   else snd (libiconv_package X s) = ?s4"
  proof (cases "msvc_like_shared s")
    case (Inl e)
    then show ?thesis using ren_ok ms by (simp add: cond_def)
  next
    case (Inr sh)
    show ?thesis
    proof (cases sh)
      case False
      then show ?thesis using Inr ms s' by (simp add: cond_def skip_def)
    next
      case True
      then have ren: "?ren ?s4 = seq ?r1 ?r2 ?s4"
        using Inr ms by (simp add: cond_def seq_skip)
      have ok1: "fst (?r1 ?s4) = None" and ok2: "fst (?r2 (snd (?r1 ?s4))) = None"
        using ren_ok unfolding ren by (simp_all add: fst_seq split: option.splits)
      from in_package_folder_ok[OF ok1] obtain t5 where
        t5: "rename [''lib'', ''iconv.dll.lib''] [''lib'', ''iconv.lib''] (package_folder ?s4) = Inr t5"
        and s5: "snd (?r1 ?s4) = ?s4\<lparr>package_folder := t5,
           calls := calls ?s4 @ [Rename [''lib'', ''iconv.dll.lib''] [''lib'', ''iconv.lib'']]\<rparr>"
        by blast
      from in_package_folder_ok[OF ok2] obtain t6 where
        t6: "rename [''lib'', ''charset.dll.lib''] [''lib'', ''charset.lib'']
               (package_folder (snd (?r1 ?s4))) = Inr t6"
        and s6: "snd (?r2 (snd (?r1 ?s4))) = (snd (?r1 ?s4))\<lparr>package_folder := t6,
           calls := calls (snd (?r1 ?s4)) @
             [Rename [''lib'', ''charset.dll.lib''] [''lib'', ''charset.lib'']]\<rparr>"
        by blast
      have "snd (libiconv_package X s) = snd (?r2 (snd (?r1 ?s4)))"
        using s' ok1 unfolding ren by (simp add: snd_seq)
      then have "snd (libiconv_package X s)
                   = ?s4\<lparr>package_folder := t6,
                         calls := calls ?s4 @
                           [Rename [''lib'', ''iconv.dll.lib''] [''lib'', ''iconv.lib''],
                            Rename [''lib'', ''charset.dll.lib''] [''lib'', ''charset.lib'']]\<rparr>"
        using s6 s5 by simp
      moreover have "rename [''lib'', ''charset.dll.lib''] [''lib'', ''charset.lib''] t5 = Inr t6"
        using t6 s5 by simp
      ultimately show ?thesis using Inr True t5 by auto
    qed
  qed
  from st op cl tr last show ?thesis by blast
qed

lemma example_libiconv_msvc_shared_package:
  "libiconv_package (test_env [] example_import_libs) example_libiconv_msvc_shared
     = (None, example_libiconv_msvc_shared\<lparr>
          autotools_cache := Some \<lparr>win_bash = False, flags = [''-FS'']\<rparr>,
          package_folder :=
            [([''lib'', ''iconv.lib''], ''iconv import library''),
             ([''lib'', ''charset.lib''], ''charset import library'')],
          calls := [Autotools_configure [''--disable-static'', ''--enable-shared'']
                      (Some ''x86_64-w64-mingw32'') (Some False),
                    Autotools_install,
                    Remove_files_by_mask [''lib''] ''*.la'',
                    Rmdir [''share''],
                    Rename [''lib'', ''iconv.dll.lib''] [''lib'', ''iconv.lib''],
                    Rename [''lib'', ''charset.dll.lib''] [''lib'', ''charset.lib'']]\<rparr>)"
  by (simp add: libiconv_package_def build_context_def with_result_def configure_autotools_def
      in_package_folder_def self_copy_def remove_files_by_mask_def rmdir_def rename_def
      os_rename_def path_exists_def matches_mask_def suffix_Cons
      msvc_like_shared_def is_msvc_def is_clang_cl_def autotools_host_def autotools_build_def
      autotools_configure_args_def option_true_def option_attr_def bind_def Let_def
      example_libiconv_msvc_shared_def example_import_libs_def new_conanfile_def target_def
      source_subfolder_def test_env_def cond_def seq_def skip_def)











section \<open>The claims\<close>

text \<open>
  C1. After the environment-probing stage (\<^verbatim>\<open>config_options\<close>, the assignment of the
  requested option values, \<^verbatim>\<open>configure\<close>) of a run whose target OS is Windows, the option
  \<^verbatim>\<open>fPIC\<close> is absent from the live option set of both recipes: this is the state in which
  \<^verbatim>\<open>requirements\<close> starts. No later stage puts it back: it is still absent in the last
  state of the run, whether the run completes or stops with an error.
\<close>

theorem C1_fPIC_absent_on_Windows:
  assumes "os (settings s) = ''Windows''"
  shows "options (snd (gdk_pixbuf_run_configure down s)) ''fPIC'' = None
       \<and> options (snd (libiconv_run_configure down s)) ''fPIC'' = None
       \<and> options (snd (gdk_pixbuf_run X down s)) ''fPIC'' = None
       \<and> options (snd (libiconv_run X down s)) ''fPIC'' = None"
proof -
  have g: "options (snd (gdk_pixbuf_run_configure down s)) ''fPIC'' = None"
    using assms by (rule gdk_run_configure_windows)
  have l: "options (snd (libiconv_run_configure down s)) ''fPIC'' = None"
    using assms by (rule libiconv_run_configure_windows)
  have "options (snd (gdk_pixbuf_run X down s)) = options (snd (gdk_pixbuf_run_configure down s))"
    unfolding gdk_pixbuf_run_def block.simps(2)[of "gdk_pixbuf_run_configure down"]
    by (rule seq_keeps_right) (rule keeps_options_gdk_pixbuf_stages)
  moreover
  have "options (snd (libiconv_run X down s)) = options (snd (libiconv_run_configure down s))"
    unfolding libiconv_run_def block.simps(2)[of "libiconv_run_configure down"]
    by (rule seq_keeps_right) (rule keeps_options_libiconv_stages)
  ultimately show ?thesis using g l by simp
qed

theorem C1_fPIC_absent_on_Windows_witness:
  "os (settings (new_conanfile (Version 2 42 6) (target ''Windows'' ''x86_64'' ''msvc'')
        gdk_pixbuf_default_options)) = ''Windows''
   \<and> options (snd (gdk_pixbuf_run_configure [(''shared'', OBool True)]
        (new_conanfile (Version 2 42 6) (target ''Windows'' ''x86_64'' ''msvc'')
           gdk_pixbuf_default_options))) ''fPIC'' = None
   \<and> os (settings (new_conanfile (Version 1 16 0) (target ''Windows'' ''x86'' ''gcc'')
        libiconv_default_options)) = ''Windows''
   \<and> options (snd (libiconv_run_configure []
        (new_conanfile (Version 1 16 0) (target ''Windows'' ''x86'' ''gcc'')
           libiconv_default_options))) ''fPIC'' = None"
  using C1_fPIC_absent_on_Windows [of "new_conanfile (Version 2 42 6)
      (target ''Windows'' ''x86_64'' ''msvc'') gdk_pixbuf_default_options"
      "[(''shared'', OBool True)]"]
    C1_fPIC_absent_on_Windows [of "new_conanfile (Version 1 16 0)
      (target ''Windows'' ''x86'' ''gcc'') libiconv_default_options" "[]"]
  by (simp add: new_conanfile_def target_def)

text \<open>
  C2. For the gdk-pixbuf recipe, \<^verbatim>\<open>requirements\<close> and \<^verbatim>\<open>build_requirements\<close> are
  determined by the option values: from two recipe objects with the same options and the
  same requirements declared so far, whatever their settings and version, they raise or
  return alike and declare the same requirements; and invoking either a second time
  leaves the declared requirements as the first invocation left them. For the libiconv
  recipe, \<^verbatim>\<open>build_requirements\<close> does not read the options: it requires
  \<^verbatim>\<open>msys2/cci.latest\<close> exactly when the OS of the build machine is Windows and the
  environment variable \<^verbatim>\<open>CONAN_BASH_PATH\<close> is unset or empty.
\<close>

theorem C2_requirements_determined_by_options:
  "(options a = options b \<and> requires a = requires b \<and> build_requires a = build_requires b \<longrightarrow>
      fst (gdk_pixbuf_requirements a) = fst (gdk_pixbuf_requirements b)
    \<and> requires (snd (gdk_pixbuf_requirements a)) = requires (snd (gdk_pixbuf_requirements b))
    \<and> fst (gdk_pixbuf_build_requirements a) = fst (gdk_pixbuf_build_requirements b)
    \<and> build_requires (snd (gdk_pixbuf_build_requirements a))
        = build_requires (snd (gdk_pixbuf_build_requirements b)))
   \<and> fst (gdk_pixbuf_requirements (snd (gdk_pixbuf_requirements a))) = fst (gdk_pixbuf_requirements a)
   \<and> requires (snd (gdk_pixbuf_requirements (snd (gdk_pixbuf_requirements a))))
       = requires (snd (gdk_pixbuf_requirements a))
   \<and> fst (gdk_pixbuf_build_requirements (snd (gdk_pixbuf_build_requirements a)))
       = fst (gdk_pixbuf_build_requirements a)
   \<and> build_requires (snd (gdk_pixbuf_build_requirements (snd (gdk_pixbuf_build_requirements a))))
       = build_requires (snd (gdk_pixbuf_build_requirements a))
   \<and> fst (libiconv_build_requirements X a) = None
   \<and> build_requires (snd (libiconv_build_requirements X a))
       = (if os (the_settings_build a) = ''Windows'' \<and> \<not> get_env_set X ''CONAN_BASH_PATH''
          then (build_requires a)(''msys2'' \<mapsto> ''cci.latest'') else build_requires a)"
proof -
  note r = req_step_gdk_pixbuf_requirements[unfolded req_step_def, rule_format]
  have 1: "fst (gdk_pixbuf_requirements a) = fst (gdk_pixbuf_requirements b)
      \<and> requires (snd (gdk_pixbuf_requirements a)) = requires (snd (gdk_pixbuf_requirements b))"
    if "options a = options b" "requires a = requires b"
    using r[OF that(1)] that(2) by simp
  have 2: "fst (gdk_pixbuf_build_requirements a) = fst (gdk_pixbuf_build_requirements b)
      \<and> build_requires (snd (gdk_pixbuf_build_requirements a))
        = build_requires (snd (gdk_pixbuf_build_requirements b))"
    if "options a = options b" "build_requires a = build_requires b"
    using that by (simp add: gdk_pixbuf_build_requirements_eq split: option.splits)
  have o: "options (snd (gdk_pixbuf_requirements a)) = options a"
    using r[of a a] by simp
  have 3: "fst (gdk_pixbuf_requirements (snd (gdk_pixbuf_requirements a))) = fst (gdk_pixbuf_requirements a)
     \<and> requires (snd (gdk_pixbuf_requirements (snd (gdk_pixbuf_requirements a))))
       = requires (snd (gdk_pixbuf_requirements a))"
    using r[of a "snd (gdk_pixbuf_requirements a)"] o by simp
  have 4: "fst (gdk_pixbuf_build_requirements (snd (gdk_pixbuf_build_requirements a)))
       = fst (gdk_pixbuf_build_requirements a)
     \<and> build_requires (snd (gdk_pixbuf_build_requirements (snd (gdk_pixbuf_build_requirements a))))
       = build_requires (snd (gdk_pixbuf_build_requirements a))"
    by (simp add: gdk_pixbuf_build_requirements_eq split: option.splits)
  have 5: "fst (libiconv_build_requirements X a) = None
   \<and> build_requires (snd (libiconv_build_requirements X a))
       = (if os (the_settings_build a) = ''Windows'' \<and> \<not> get_env_set X ''CONAN_BASH_PATH''
          then (build_requires a)(''msys2'' \<mapsto> ''cci.latest'') else build_requires a)"
    by (simp add: libiconv_build_requirements_eq)
  from 1 2 3 4 5 show ?thesis by blast
qed

theorem C2_requirements_determined_by_options_witness:
  "options (new_conanfile (Version 2 42 6) (target ''Linux'' ''x86_64'' ''gcc'') gdk_pixbuf_default_options)
     = options (new_conanfile (Version 2 40 0) (target ''Windows'' ''x86'' ''msvc'') gdk_pixbuf_default_options)
   \<and> requires (new_conanfile (Version 2 42 6) (target ''Linux'' ''x86_64'' ''gcc'') gdk_pixbuf_default_options)
     = requires (new_conanfile (Version 2 40 0) (target ''Windows'' ''x86'' ''msvc'') gdk_pixbuf_default_options)
   \<and> build_requires (new_conanfile (Version 2 42 6) (target ''Linux'' ''x86_64'' ''gcc'') gdk_pixbuf_default_options)
     = build_requires (new_conanfile (Version 2 40 0) (target ''Windows'' ''x86'' ''msvc'') gdk_pixbuf_default_options)
   \<and> requires (snd (gdk_pixbuf_requirements
        (new_conanfile (Version 2 42 6) (target ''Linux'' ''x86_64'' ''gcc'') gdk_pixbuf_default_options)))
     = requires (snd (gdk_pixbuf_requirements
        (new_conanfile (Version 2 40 0) (target ''Windows'' ''x86'' ''msvc'') gdk_pixbuf_default_options)))
   \<and> build_requires (snd (gdk_pixbuf_build_requirements
        (new_conanfile (Version 2 42 6) (target ''Linux'' ''x86_64'' ''gcc'') gdk_pixbuf_default_options)))
     = build_requires (snd (gdk_pixbuf_build_requirements
        (new_conanfile (Version 2 40 0) (target ''Windows'' ''x86'' ''msvc'') gdk_pixbuf_default_options)))"
  using C2_requirements_determined_by_options
    [of "new_conanfile (Version 2 42 6) (target ''Linux'' ''x86_64'' ''gcc'') gdk_pixbuf_default_options"
        "new_conanfile (Version 2 40 0) (target ''Windows'' ''x86'' ''msvc'') gdk_pixbuf_default_options"]
  by (simp add: new_conanfile_def)

text \<open>
  Two libiconv recipe objects with the same options, one built on Linux and one on
  Windows, declare different build requirements.
\<close>

theorem C2_libiconv_build_requirements_counterexample:
  "options (new_conanfile (Version 1 16 0) (target ''Linux'' ''x86_64'' ''gcc'') libiconv_default_options)
     = options (new_conanfile (Version 1 16 0) (target ''Windows'' ''x86_64'' ''gcc'') libiconv_default_options)
   \<and> build_requires (snd (libiconv_build_requirements (test_env [] [])
        (new_conanfile (Version 1 16 0) (target ''Linux'' ''x86_64'' ''gcc'') libiconv_default_options)))
     = Map.empty
   \<and> build_requires (snd (libiconv_build_requirements (test_env [] [])
        (new_conanfile (Version 1 16 0) (target ''Windows'' ''x86_64'' ''gcc'') libiconv_default_options)))
     = [''msys2'' \<mapsto> ''cci.latest'']
   \<and> [''msys2'' \<mapsto> ''cci.latest''] \<noteq> (Map.empty :: string \<rightharpoonup> string)"
  by (simp add: libiconv_build_requirements_eq new_conanfile_def target_def test_env_def
      the_settings_build_def get_env_set_def)

text \<open>
  C10. From a recipe object with no requirement declared yet, \<^verbatim>\<open>requirements\<close> of
  gdk-pixbuf declares \<^verbatim>\<open>glib/2.70.4\<close> for every option valuation (also when it raises
  later, on a missing option). The other link-time requirements depend on the options:
  with every codec switched off, \<^verbatim>\<open>glib\<close> is the only requirement.
\<close>

theorem C10_glib_required_unconditionally:
  assumes "requires s = Map.empty"
  shows "requires (snd (gdk_pixbuf_requirements s)) ''glib'' = Some ''2.70.4''
       \<and> requires (snd (gdk_pixbuf_requirements (new_conanfile v st gdk_pixbuf_no_codecs)))
           = [''glib'' \<mapsto> ''2.70.4'']"
proof -
  have "requires (snd (gdk_pixbuf_requirements s)) ''glib'' = Some ''2.70.4''"
    unfolding gdk_pixbuf_requirements_def block.simps
  proof (rule seq_requires_grow)
    show "req_step (seq (cond (option_true ''with_libpng'') (self_requires ''libpng'' ''1.6.37'') skip)
         (seq (cond (option_true ''with_libtiff'') (self_requires ''libtiff'' ''4.3.0'') skip)
           (seq (cond (option_eq ''with_libjpeg'' ''libjpeg-turbo'')
                  (self_requires ''libjpeg-turbo'' ''2.1.2'')
                  (cond (option_eq ''with_libjpeg'' ''libjpeg'') (self_requires ''libjpeg'' ''9d'')
                    skip))
             (seq (cond (get_safe ''with_jasper'') (self_requires ''jasper'' ''2.0.33'') skip)
               skip))))"
      by (intro req_step_seq req_step_cond req_step_self_requires req_step_skip)
         (simp_all add: option_true_def option_eq_def option_attr_def get_safe_def)
    show "fst (self_requires ''glib'' ''2.70.4'' s) = None"
      using assms by (simp add: self_requires_def)
    show "requires (snd (self_requires ''glib'' ''2.70.4'' s)) ''glib'' = Some ''2.70.4''"
      using assms by (simp add: self_requires_def)
  qed
  moreover
  have "requires (snd (gdk_pixbuf_requirements (new_conanfile v st gdk_pixbuf_no_codecs)))
           = [''glib'' \<mapsto> ''2.70.4'']"
    by (simp add: gdk_pixbuf_requirements_def new_conanfile_def gdk_pixbuf_no_codecs_def stmt_defs)
  ultimately show ?thesis by simp
qed

theorem C10_glib_required_unconditionally_witness:
  "requires (new_conanfile (Version 2 42 6) (target ''Linux'' ''x86_64'' ''gcc'')
      gdk_pixbuf_default_options) = Map.empty
   \<and> requires (snd (gdk_pixbuf_requirements (new_conanfile (Version 2 42 6)
        (target ''Linux'' ''x86_64'' ''gcc'') gdk_pixbuf_default_options))) ''glib'' = Some ''2.70.4''"
  using C10_glib_required_unconditionally [of "new_conanfile (Version 2 42 6)
      (target ''Linux'' ''x86_64'' ''gcc'') gdk_pixbuf_default_options"]
  by (simp add: new_conanfile_def)


text \<open>
  C3. For the gdk-pixbuf recipe at a version of at least 2.42.0, \<^verbatim>\<open>config_options\<close>
  deletes the option \<^verbatim>\<open>with_jasper\<close>. A configuration that requests a value for
  \<^verbatim>\<open>with_jasper\<close> then fails in the configuration stage with the error that an option
  does not exist (the option \<^verbatim>\<open>with_jasper\<close> itself when it is the only request), the
  run stops there and no tool has been called.
\<close>

theorem C3_with_jasper_request_fails:
  assumes "Version_ge (version s) (Version 2 42 0)" and "(''with_jasper'', v) \<in> set down"
  shows "options (snd (gdk_pixbuf_config_options s)) ''with_jasper'' = None
       \<and> (\<exists>n. fst (gdk_pixbuf_run_configure down s)
                = Some (ConanException (''option '' @ n @ '' doesn't exist'')))
       \<and> fst (gdk_pixbuf_run_configure [(''with_jasper'', v)] s)
           = Some (ConanException ''option with_jasper doesn't exist'')
       \<and> fst (gdk_pixbuf_run X down s) = fst (gdk_pixbuf_run_configure down s)
       \<and> calls (snd (gdk_pixbuf_run X down s)) = calls s"
proof -
  let ?s1 = "snd (gdk_pixbuf_config_options s)"
  have 1: "options ?s1 ''with_jasper'' = None"
    using assms(1) by (rule gdk_config_options_with_jasper)
  from propagate_upstream_fails[OF 1 assms(2)] obtain n where
    n: "fst (propagate_upstream down ?s1) = Some (ConanException (''option '' @ n @ '' doesn't exist''))"
    by blast
  have 2: "fst (gdk_pixbuf_run_configure down s)
             = Some (ConanException (''option '' @ n @ '' doesn't exist''))"
    using n by (simp add: gdk_pixbuf_run_configure_def fst_seq fst_gdk_config_options)
  have 3: "fst (gdk_pixbuf_run_configure [(''with_jasper'', v)] s)
           = Some (ConanException ''option with_jasper doesn't exist'')"
    using 1 by (simp add: gdk_pixbuf_run_configure_def fst_seq fst_gdk_config_options)
  have run: "gdk_pixbuf_run X down s = gdk_pixbuf_run_configure down s"
    unfolding gdk_pixbuf_run_def block.simps(2)[of "gdk_pixbuf_run_configure down"]
    using 2 by (rule seq_fails)
  have 5: "calls (snd (gdk_pixbuf_run X down s)) = calls s"
    using keepsD[OF keeps_gdk_run_configure, of calls down s] by (simp add: run)
  from 1 2 3 run 5 show ?thesis by auto
qed

theorem C3_with_jasper_request_fails_witness:
  "Version_ge (version (new_conanfile (Version 2 42 6) (target ''Linux'' ''x86_64'' ''gcc'')
        gdk_pixbuf_default_options)) (Version 2 42 0)
   \<and> (''with_jasper'', OBool True) \<in> set [(''with_jasper'', OBool True)]
   \<and> fst (gdk_pixbuf_run (test_env [] []) [(''with_jasper'', OBool True)]
        (new_conanfile (Version 2 42 6) (target ''Linux'' ''x86_64'' ''gcc'')
           gdk_pixbuf_default_options))
       = Some (ConanException ''option with_jasper doesn't exist'')"
  using C3_with_jasper_request_fails [of "new_conanfile (Version 2 42 6)
      (target ''Linux'' ''x86_64'' ''gcc'') gdk_pixbuf_default_options" "OBool True"
      "[(''with_jasper'', OBool True)]" "test_env [] []"]
  by (simp add: new_conanfile_def)

text \<open>
  C4. For the gdk-pixbuf recipe on the target OS Macos (the option \<^verbatim>\<open>shared\<close> being
  declared, as it always is), \<^verbatim>\<open>configure\<close> raises the invalid-configuration error. A
  run stops in the configuration stage, with this error when no option value is
  requested, and in every case before the source stage: no tool has been called and the
  build folder is as it was.
\<close>

theorem C4_Macos_invalid_configuration:
  assumes "os (settings s) = ''Macos''" and "options s ''shared'' = Some v"
  shows "fst (gdk_pixbuf_configure s)
           = Some (ConanInvalidConfiguration ''This package does not support Macos currently'')
       \<and> fst (gdk_pixbuf_run X [] s)
           = Some (ConanInvalidConfiguration ''This package does not support Macos currently'')
       \<and> fst (gdk_pixbuf_run X down s) \<noteq> None
       \<and> calls (snd (gdk_pixbuf_run X down s)) = calls s
       \<and> build_folder (snd (gdk_pixbuf_run X down s)) = build_folder s"
proof -
  let ?cic = "ConanInvalidConfiguration ''This package does not support Macos currently''"
  let ?s1 = "snd (gdk_pixbuf_config_options s)"
  have os1: "os (settings ?s1) = ''Macos''"
    using keepsD[OF keeps_gdk_config_options, of settings s] assms(1) by simp
  have sh1: "options ?s1 ''shared'' = Some v"
    using assms(2) by (simp add: gdk_config_options_other)
  have rc: "\<exists>e. fst (gdk_pixbuf_run_configure d s) = Some e \<and> (d = [] \<longrightarrow> e = ?cic)" for d
  proof -
    let ?s2 = "snd (propagate_upstream d ?s1)"
    show ?thesis
    proof (cases "fst (propagate_upstream d ?s1)")
      case None
      have "os (settings ?s2) = ''Macos''"
        using keepsD[OF propagate_upstream_keeps, of settings d ?s1] os1 by simp
      moreover obtain w where "options ?s2 ''shared'' = Some w"
        using propagate_upstream_present[OF sh1] by blast
      ultimately have "fst (gdk_pixbuf_configure ?s2) = Some ?cic"
        by (rule gdk_configure_macos)
      then show ?thesis using None
        by (simp add: gdk_pixbuf_run_configure_def fst_seq fst_gdk_config_options)
    next
      case (Some e)
      then have "d \<noteq> []" by (auto simp add: skip_def)
      then show ?thesis using Some
        by (simp add: gdk_pixbuf_run_configure_def fst_seq fst_gdk_config_options)
    qed
  qed
  have run: "gdk_pixbuf_run X d s = gdk_pixbuf_run_configure d s" for d
  proof -
    from rc[of d] obtain e where "fst (gdk_pixbuf_run_configure d s) = Some e" by blast
    then show ?thesis
      unfolding gdk_pixbuf_run_def block.simps(2)[of "gdk_pixbuf_run_configure d"]
      by (rule seq_fails)
  qed
  have 1: "fst (gdk_pixbuf_configure s) = Some ?cic"
    using assms by (rule gdk_configure_macos)
  have 2: "fst (gdk_pixbuf_run X [] s) = Some ?cic"
    using rc[of "[]"] by (auto simp add: run)
  have 3: "fst (gdk_pixbuf_run X down s) \<noteq> None"
    using rc[of down] by (auto simp add: run)
  have 4: "calls (snd (gdk_pixbuf_run X down s)) = calls s"
    using keepsD[OF keeps_gdk_run_configure, of calls down s] by (simp add: run)
  have 5: "build_folder (snd (gdk_pixbuf_run X down s)) = build_folder s"
    using keepsD[OF keeps_gdk_run_configure, of build_folder down s] by (simp add: run)
  from 1 2 3 4 5 show ?thesis by blast
qed

theorem C4_Macos_invalid_configuration_witness:
  "os (settings (new_conanfile (Version 2 42 6) (target ''Macos'' ''x86_64'' ''apple-clang'')
        gdk_pixbuf_default_options)) = ''Macos''
   \<and> options (new_conanfile (Version 2 42 6) (target ''Macos'' ''x86_64'' ''apple-clang'')
        gdk_pixbuf_default_options) ''shared'' = Some (OBool False)
   \<and> fst (gdk_pixbuf_run (test_env [] []) [] (new_conanfile (Version 2 42 6)
        (target ''Macos'' ''x86_64'' ''apple-clang'') gdk_pixbuf_default_options))
       = Some (ConanInvalidConfiguration ''This package does not support Macos currently'')
   \<and> calls (snd (gdk_pixbuf_run (test_env [] []) [] (new_conanfile (Version 2 42 6)
        (target ''Macos'' ''x86_64'' ''apple-clang'') gdk_pixbuf_default_options))) = []"
  using C4_Macos_invalid_configuration [of "new_conanfile (Version 2 42 6)
      (target ''Macos'' ''x86_64'' ''apple-clang'') gdk_pixbuf_default_options" "OBool False"
      "test_env [] []" "[]"]
  by (simp add: new_conanfile_def target_def gdk_pixbuf_default_options_def)


text \<open>
  C8. When \<^verbatim>\<open>_configure_autotools\<close> of libiconv runs \<^verbatim>\<open>configure\<close> (no cached object),
  the call it makes has the arguments \<^verbatim>\<open>--disable-static --enable-shared\<close> when
  \<^verbatim>\<open>shared\<close> is true and \<^verbatim>\<open>--enable-static --disable-shared\<close> otherwise, and the host
  and build of the settings; with a cached object it returns the object and calls
  nothing. On the MSVC-like compilers the host is \<^verbatim>\<open>i686-w64-mingw32\<close> for the
  architecture x86 and \<^verbatim>\<open>x86_64-w64-mingw32\<close> for x86\_64; on the other compilers there
  is no host.
\<close>

theorem C8_configure_arguments:
  "(autotools_cache s = None \<and> options s ''shared'' = Some v \<longrightarrow>
      calls (snd (configure_autotools X env s))
        = calls s @ (case fst (configure_autotools X env s) of
                       Inl e \<Rightarrow> []
                     | Inr a \<Rightarrow> [Autotools_configure
                         (if truthy v then [''--disable-static'', ''--enable-shared'']
                          else [''--enable-static'', ''--disable-shared''])
                         (autotools_host s) (autotools_build s)]))
   \<and> (autotools_cache s = Some a \<longrightarrow> configure_autotools X env s = (Inr a, s))
   \<and> ((is_msvc s \<or> is_clang_cl s) \<and> arch (settings s) = ''x86''
        \<longrightarrow> autotools_host s = Some ''i686-w64-mingw32'')
   \<and> ((is_msvc s \<or> is_clang_cl s) \<and> arch (settings s) = ''x86_64''
        \<longrightarrow> autotools_host s = Some ''x86_64-w64-mingw32'')
   \<and> (\<not> (is_msvc s \<or> is_clang_cl s) \<longrightarrow> autotools_host s = None)"
proof (intro conjI impI)
  assume "autotools_cache s = None \<and> options s ''shared'' = Some v"
  then show "calls (snd (configure_autotools X env s))
        = calls s @ (case fst (configure_autotools X env s) of
                       Inl e \<Rightarrow> []
                     | Inr a \<Rightarrow> [Autotools_configure
                         (if truthy v then [''--disable-static'', ''--enable-shared'']
                          else [''--enable-static'', ''--disable-shared''])
                         (autotools_host s) (autotools_build s)])"
    using configure_autotools_calls[of s v X env]
    by (simp add: autotools_configure_args_def split: sum.splits)
next
  assume "autotools_cache s = Some a"
  then show "configure_autotools X env s = (Inr a, s)" by (rule configure_autotools_cached)
next
  assume "(is_msvc s \<or> is_clang_cl s) \<and> arch (settings s) = ''x86''"
  then show "autotools_host s = Some ''i686-w64-mingw32''" by (simp add: autotools_host_def)
next
  assume "(is_msvc s \<or> is_clang_cl s) \<and> arch (settings s) = ''x86_64''"
  then show "autotools_host s = Some ''x86_64-w64-mingw32''" by (simp add: autotools_host_def)
next
  assume "\<not> (is_msvc s \<or> is_clang_cl s)"
  then show "autotools_host s = None" by (simp add: autotools_host_def)
qed


theorem C8_configure_arguments_witness:
  "autotools_cache (new_conanfile (Version 1 16 0) (target ''Windows'' ''x86'' ''Visual Studio'')
      [''shared'' \<mapsto> OBool True]) = None
   \<and> options (new_conanfile (Version 1 16 0) (target ''Windows'' ''x86'' ''Visual Studio'')
      [''shared'' \<mapsto> OBool True]) ''shared'' = Some (OBool True)
   \<and> is_msvc (new_conanfile (Version 1 16 0) (target ''Windows'' ''x86'' ''Visual Studio'')
      [''shared'' \<mapsto> OBool True])
   \<and> arch (settings (new_conanfile (Version 1 16 0) (target ''Windows'' ''x86'' ''Visual Studio'')
      [''shared'' \<mapsto> OBool True])) = ''x86''
   \<and> calls (snd (configure_autotools (test_env [] []) []
        (new_conanfile (Version 1 16 0) (target ''Windows'' ''x86'' ''Visual Studio'')
           [''shared'' \<mapsto> OBool True])))
       = [Autotools_configure [''--disable-static'', ''--enable-shared'']
            (Some ''i686-w64-mingw32'') (Some False)]"
proof -
  let ?s = "new_conanfile (Version 1 16 0) (target ''Windows'' ''x86'' ''Visual Studio'')
      [''shared'' \<mapsto> OBool True]"
  have 1: "autotools_cache ?s = None" by (simp add: new_conanfile_def)
  have 2: "options ?s ''shared'' = Some (OBool True)" by (simp add: new_conanfile_def)
  have 3: "is_msvc ?s" by (simp add: new_conanfile_def target_def is_msvc_def)
  have 4: "arch (settings ?s) = ''x86''" by (simp add: new_conanfile_def target_def)
  have 5: "fst (configure_autotools (test_env [] []) [] ?s)
             = Inr \<lparr>win_bash = False, flags = [''-FS'']\<rparr>"
    by (simp add: configure_autotools_def Let_def option_true_def option_attr_def bind_def
        new_conanfile_def target_def test_env_def)
  have 6: "autotools_build ?s = Some False" using 3 by (simp add: autotools_build_def)
  show ?thesis
    using C8_configure_arguments [of ?s "OBool True" "test_env [] []" "[]"] 1 2 3 4 5 6
    by (simp add: new_conanfile_def)
qed




text \<open>
  C5. When the package stage of libiconv completes with \<^verbatim>\<open>shared\<close> true on an MSVC-like
  toolchain (Visual Studio or msvc, or clang on Windows), its last two calls rename
  \<^verbatim>\<open>lib/iconv.dll.lib\<close> to \<^verbatim>\<open>lib/iconv.lib\<close> and \<^verbatim>\<open>lib/charset.dll.lib\<close> to
  \<^verbatim>\<open>lib/charset.lib\<close>, no other call of the stage is a rename, and the package folder
  then holds the two \<^verbatim>\<open>.lib\<close> files and neither \<^verbatim>\<open>.dll.lib\<close> file. With any other
  compiler or with \<^verbatim>\<open>shared\<close> false the stage renames nothing.
\<close>

theorem C5_import_libraries_renamed:
  assumes "fst (libiconv_package X s) = None"
  shows "((is_msvc s \<or> is_clang_cl s) \<and> option_true ''shared'' s = Inr True \<longrightarrow>
            (\<exists>cs. calls (snd (libiconv_package X s))
                    = calls s @ cs @
                        [Rename [''lib'', ''iconv.dll.lib''] [''lib'', ''iconv.lib''],
                         Rename [''lib'', ''charset.dll.lib''] [''lib'', ''charset.lib'']]
                  \<and> list_all (\<lambda>c. \<not> is_rename c) cs)
          \<and> [''lib'', ''iconv.lib''] \<in> fst ` set (package_folder (snd (libiconv_package X s)))
          \<and> [''lib'', ''charset.lib''] \<in> fst ` set (package_folder (snd (libiconv_package X s)))
          \<and> [''lib'', ''iconv.dll.lib''] \<notin> fst ` set (package_folder (snd (libiconv_package X s)))
          \<and> [''lib'', ''charset.dll.lib''] \<notin> fst ` set (package_folder (snd (libiconv_package X s))))
       \<and> (\<not> ((is_msvc s \<or> is_clang_cl s) \<and> option_true ''shared'' s = Inr True) \<longrightarrow>
            (\<exists>cs. calls (snd (libiconv_package X s)) = calls s @ cs
                  \<and> list_all (\<lambda>c. \<not> is_rename c) cs))"
proof -
  from libiconv_package_completed[OF assms] obtain s4 cs where
    cs: "calls s4 = calls s @ cs" "list_all (\<lambda>c. \<not> is_rename c) cs"
    and last: "case msvc_like_shared s of
                 Inl e \<Rightarrow> False
               | Inr sh \<Rightarrow>
                   if sh
                   then \<exists>t5 t6.
                          rename [''lib'', ''iconv.dll.lib''] [''lib'', ''iconv.lib'']
                            (package_folder s4) = Inr t5
                        \<and> rename [''lib'', ''charset.dll.lib''] [''lib'', ''charset.lib''] t5 = Inr t6
                        \<and> snd (libiconv_package X s)
                            = s4\<lparr>package_folder := t6,
                                 calls := calls s4 @
                                   [Rename [''lib'', ''iconv.dll.lib''] [''lib'', ''iconv.lib''],
                                    Rename [''lib'', ''charset.dll.lib''] [''lib'', ''charset.lib'']]\<rparr>
                   else snd (libiconv_package X s) = s4"
    by blast
  show ?thesis
  proof (cases "(is_msvc s \<or> is_clang_cl s) \<and> option_true ''shared'' s = Inr True")
    case True
    then have "msvc_like_shared s = Inr True" by (auto simp add: msvc_like_shared_def)
    with last obtain t5 t6 where
      t5: "rename [''lib'', ''iconv.dll.lib''] [''lib'', ''iconv.lib''] (package_folder s4) = Inr t5"
      and t6: "rename [''lib'', ''charset.dll.lib''] [''lib'', ''charset.lib''] t5 = Inr t6"
      and s': "snd (libiconv_package X s)
                 = s4\<lparr>package_folder := t6,
                      calls := calls s4 @
                        [Rename [''lib'', ''iconv.dll.lib''] [''lib'', ''iconv.lib''],
                         Rename [''lib'', ''charset.dll.lib''] [''lib'', ''charset.lib'']]\<rparr>"
      by auto
    have keys: "fst ` set t6
        = insert [''lib'', ''charset.lib'']
            (insert [''lib'', ''iconv.lib''] (fst ` set (package_folder s4) - {[''lib'', ''iconv.dll.lib'']})
             - {[''lib'', ''charset.dll.lib'']})"
      using rename_keys[OF t5] rename_keys[OF t6] by simp
    have pf: "package_folder (snd (libiconv_package X s)) = t6" using s' by simp
    have c: "calls (snd (libiconv_package X s))
               = calls s @ cs @ [Rename [''lib'', ''iconv.dll.lib''] [''lib'', ''iconv.lib''],
                                 Rename [''lib'', ''charset.dll.lib''] [''lib'', ''charset.lib'']]"
      using s' cs by simp
    show ?thesis using True c cs(2) by (auto simp add: pf keys)
  next
    case False
    then have "msvc_like_shared s \<noteq> Inr True" by (auto simp add: msvc_like_shared_def)
    with last have "snd (libiconv_package X s) = s4"
      by (cases "msvc_like_shared s") (auto split: if_splits)
    then show ?thesis using False cs by auto
  qed
qed


theorem C5_import_libraries_renamed_witness:
  "fst (libiconv_package (test_env [] example_import_libs) example_libiconv_msvc_shared) = None
   \<and> is_msvc example_libiconv_msvc_shared
   \<and> option_true ''shared'' example_libiconv_msvc_shared = Inr True
   \<and> [''lib'', ''iconv.lib''] \<in> fst ` set (package_folder
        (snd (libiconv_package (test_env [] example_import_libs) example_libiconv_msvc_shared)))
   \<and> [''lib'', ''iconv.dll.lib''] \<notin> fst ` set (package_folder
        (snd (libiconv_package (test_env [] example_import_libs) example_libiconv_msvc_shared)))"
proof -
  have 1: "fst (libiconv_package (test_env [] example_import_libs) example_libiconv_msvc_shared) = None"
    by (simp add: example_libiconv_msvc_shared_package)
  have 2: "is_msvc example_libiconv_msvc_shared"
    by (simp add: is_msvc_def example_libiconv_msvc_shared_def new_conanfile_def target_def)
  have 3: "option_true ''shared'' example_libiconv_msvc_shared = Inr True"
    by (simp add: option_true_def option_attr_def bind_def example_libiconv_msvc_shared_def
        new_conanfile_def)
  from C5_import_libraries_renamed[OF 1] 1 2 3 show ?thesis by blast
qed





end
